theory Spec2Isabelle
  imports Complex_Main "HOL-Library.AList"
begin

section \<open>JavaScript values as the hooks see them\<close>

text \<open>
  The hooks \<^verbatim>\<open>useP2P\<close> and \<open>useOrchestrator\<close> work on values that come out of
  \<^verbatim>\<open>JSON.parse\<close> and \<^verbatim>\<open>response.json()\<close>; the peer payloads are typed \<^verbatim>\<open>any\<close>.
  A value is therefore modelled as the runtime has it. An object is the list of its
  own properties, looked up by name (the first entry of a name is the property).
\<close>

datatype json =
    JUndefined
  | JNull
  | JBool bool
  | JNum real
  | JStr string
  | JArr "json list"
  | JObj "(string \<times> json) list"

text \<open>Errors that the runtime or the hooks throw. \<open>Error m\<close> is \<^verbatim>\<open>new Error(m)\<close>.\<close>

datatype error =
    Error string
  | TypeError
  | SyntaxError
  | FetchFailed

text \<open>
  \<^verbatim>\<open>err.message\<close>, as the hooks store it in \<^verbatim>\<open>state.error\<close>. The message of an error
  that the code makes is its string. The message of an error that the engine throws
  is the engine's own text, which the language does not fix: it stays the message of
  that error.
\<close>

datatype message_text = Literal string | EngineMessage error

fun message :: "error \<Rightarrow> message_text" where
  "message (Error m) = Literal m"
| "message e = EngineMessage e"

text \<open>Truthiness: \<^verbatim>\<open>undefined\<close>, \<^verbatim>\<open>null\<close>, \<^verbatim>\<open>false\<close>, \<^verbatim>\<open>0\<close> and \<^verbatim>\<open>''\<close> are falsy.\<close>

fun truthy :: "json \<Rightarrow> bool" where
  "truthy JUndefined = False"
| "truthy JNull = False"
| "truthy (JBool b) = b"
| "truthy (JNum r) = (r \<noteq> 0)"
| "truthy (JStr s) = (s \<noteq> [])"
| "truthy (JArr xs) = True"
| "truthy (JObj kvs) = True"

fun nullish :: "json \<Rightarrow> bool" where
  "nullish JUndefined = True"
| "nullish JNull = True"
| "nullish v = False"

text \<open>\<^verbatim>\<open>a || b\<close> and \<^verbatim>\<open>a ?? b\<close>.\<close>

definition js_or :: "json \<Rightarrow> json \<Rightarrow> json" where
  "js_or a b = (if truthy a then a else b)"

definition js_coalesce :: "json \<Rightarrow> json \<Rightarrow> json" where
  "js_coalesce a b = (if nullish a then b else a)"

text \<open>
  \<^verbatim>\<open>v?.f\<close>: \<^verbatim>\<open>undefined\<close> on \<^verbatim>\<open>null\<close> and \<^verbatim>\<open>undefined\<close>, the property of an object,
  and \<^verbatim>\<open>undefined\<close> on a primitive or an array (none of the names the hooks read,
  \<^verbatim>\<open>id\<close>, \<^verbatim>\<open>peer_id\<close>, \<^verbatim>\<open>name\<close>, \<^verbatim>\<open>data\<close>, ..., is a property of those). The plain
  \<^verbatim>\<open>v.f\<close> is the same on every value that is not nullish and throws a TypeError on
  \<^verbatim>\<open>null\<close> and \<^verbatim>\<open>undefined\<close>: the callers test \<open>nullish\<close> first.
\<close>

fun jprop :: "json \<Rightarrow> string \<Rightarrow> json" where
  "jprop (JObj kvs) f = (case map_of kvs f of None \<Rightarrow> JUndefined | Some v \<Rightarrow> v)"
| "jprop v f = JUndefined"

text \<open>Decimal digits of a number, for template literals and index property names.\<close>

fun string_of_nat :: "nat \<Rightarrow> string" where
  "string_of_nat n =
     (if n < 10 then [''0123456789'' ! n]
      else string_of_nat (n div 10) @ [''0123456789'' ! (n mod 10)])"

declare string_of_nat.simps [simp del]

text \<open>The own enumerable properties that an object spread \<^verbatim>\<open>{...v}\<close> copies.\<close>

fun indexed :: "nat \<Rightarrow> json list \<Rightarrow> (string \<times> json) list" where
  "indexed i [] = []"
| "indexed i (x # xs) = (string_of_nat i, x) # indexed (Suc i) xs"

fun own_props :: "json \<Rightarrow> (string \<times> json) list" where
  "own_props (JObj kvs) = kvs"
| "own_props (JArr xs) = indexed 0 xs"
| "own_props (JStr s) = indexed 0 (map (\<lambda>c. JStr [c]) s)"
| "own_props v = []"

text \<open>\<^verbatim>\<open>{ ...v, f: x }\<close>\<close>

definition spread_with :: "json \<Rightarrow> string \<Rightarrow> json \<Rightarrow> json" where
  "spread_with v f x = JObj (AList.update f x (own_props v))"

text \<open>
  \<^verbatim>\<open>for (const x of v)\<close>: an array gives its elements, a string its characters, and
  any other value that reaches the loops is not iterable.
\<close>

fun iterate :: "json \<Rightarrow> error + json list" where
  "iterate (JArr xs) = Inr xs"
| "iterate (JStr s) = Inr (map (\<lambda>c. JStr [c]) s)"
| "iterate v = Inl TypeError"

section \<open>Peers: normalisation and the peers store (useP2P.ts)\<close>

record NormalizedPeer =
  id' :: json
  name :: json
  reputation :: json
  location :: json
  addresses :: json

text \<open>
  \<^verbatim>\<open>`Peer-${id.slice(0, 12)}`\<close>. Here \<open>id\<close> is truthy or the empty string. A string
  has \<^verbatim>\<open>slice\<close>; so has an array, and the template then prints the sliced array with
  the runtime's string conversion, which is the parameter \<open>toStr\<close>. On any other
  value \<^verbatim>\<open>id.slice\<close> is not a function and the call throws.
\<close>

fun peer_label :: "(json \<Rightarrow> string) \<Rightarrow> json \<Rightarrow> error + json" where
  "peer_label toStr (JStr s) = Inr (JStr (''Peer-'' @ take 12 s))"
| "peer_label toStr (JArr xs) = Inr (JStr (''Peer-'' @ toStr (JArr (take 12 xs))))"
| "peer_label toStr v = Inl TypeError"

definition normalizePeer :: "(json \<Rightarrow> string) \<Rightarrow> json \<Rightarrow> error + NormalizedPeer" where
  "normalizePeer toStr peer =
     (if nullish peer then Inl TypeError
      else
        let i = js_or (js_or (jprop peer ''id'') (jprop peer ''peer_id'')) (JStr '''');
            n0 = js_or (jprop peer ''name'') (jprop peer ''display_name'');
            rep = (case jprop peer ''reputation'' of
                     JNum r \<Rightarrow> JNum r
                   | r \<Rightarrow> js_coalesce (jprop r ''score'') (JNum 0.5))
        in case (if truthy n0 then Inr n0 else peer_label toStr i) of
             Inl e \<Rightarrow> Inl e
           | Inr n \<Rightarrow>
               Inr \<lparr> id' = i, name = n, reputation = rep,
                     location = jprop peer ''location'',
                     addresses = js_or (jprop peer ''addresses'') (JArr []) \<rparr>)"

text \<open>
  A JavaScript \<^verbatim>\<open>Map\<close> keeps its entries in insertion order; \<^verbatim>\<open>set\<close> replaces the
  value of a key in place or appends, \<^verbatim>\<open>delete\<close> removes the entry. \<^verbatim>\<open>Map\<close> compares
  keys by SameValueZero: a string, number, boolean, \<^verbatim>\<open>null\<close> or \<^verbatim>\<open>undefined\<close> by its
  value, an array or an object by its identity. Every key the hooks use comes out of
  a frame or a response that was just parsed, so a key that is an array or an object
  is a new one, equal to no key of the map: \<^verbatim>\<open>set\<close> appends it, \<^verbatim>\<open>delete\<close> and
  \<^verbatim>\<open>get\<close> find nothing.
\<close>

type_synonym 'v store = "(json \<times> 'v) list"

fun primitive :: "json \<Rightarrow> bool" where
  "primitive (JArr xs) = False"
| "primitive (JObj kvs) = False"
| "primitive v = True"

definition map_set :: "json \<Rightarrow> 'v \<Rightarrow> 'v store \<Rightarrow> 'v store" where
  "map_set k v m = (if primitive k then AList.update k v m else m @ [(k, v)])"

definition map_delete :: "json \<Rightarrow> 'v store \<Rightarrow> 'v store" where
  "map_delete k m = (if primitive k then AList.delete k m else m)"

definition map_get :: "'v store \<Rightarrow> json \<Rightarrow> 'v option" where
  "map_get m k = (if primitive k then map_of m k else None)"

text \<open>
  The loop shared by \<^verbatim>\<open>fetchPeers\<close> and the \<^verbatim>\<open>peers_list\<close> handler:
  \<^verbatim>\<open>for (const peer of peers) { const normalized = normalizePeer(peer);
       if (normalized.id) newPeers.set(normalized.id, normalized); }\<close>
\<close>

fun set_peers :: "(json \<Rightarrow> string) \<Rightarrow> json list \<Rightarrow> NormalizedPeer store
    \<Rightarrow> error + NormalizedPeer store" where
  "set_peers toStr [] m = Inr m"
| "set_peers toStr (p # ps) m =
     (case normalizePeer toStr p of
        Inl e \<Rightarrow> Inl e
      | Inr n \<Rightarrow> set_peers toStr ps (if truthy (id' n) then map_set (id' n) n m else m))"

record P2PState =
  connected :: bool
  localPeerId :: "string option"
  peers :: "NormalizedPeer store"
  messages :: "json list"

text \<open>\<^verbatim>\<open>[...s.messages.slice(-99), m]\<close>\<close>

definition push_message :: "json list \<Rightarrow> json \<Rightarrow> json list" where
  "push_message ms m = drop (length ms - 99) ms @ [m]"

text \<open>\<^verbatim>\<open>message.peers || message.data?.peers || []\<close> of the \<^verbatim>\<open>peers_list\<close> case.\<close>

definition frame_peers :: "json \<Rightarrow> json" where
  "frame_peers msg =
     js_or (js_or (jprop msg ''peers'') (jprop (jprop msg ''data'') ''peers'')) (JArr [])"

text \<open>
  What handling a frame comes to. The handler runs inside the
  \<^verbatim>\<open>try { ... } catch (e) { console.error(...) }\<close> of \<^verbatim>\<open>ws.onmessage\<close>: an error it
  throws itself is caught there and the state stays as it was. The function it hands
  to \<^verbatim>\<open>setState\<close> runs later, when React renders, outside that \<^verbatim>\<open>try\<close>: an error
  thrown there is caught by nobody in the hook and takes the component down.
\<close>

datatype 's outcome = Done 's | Caught error | Crashed error

text \<open>
  \<^verbatim>\<open>handleMessage\<close> of useP2P.ts, called by \<^verbatim>\<open>ws.onmessage\<close> on a parsed frame. Only
  reading \<^verbatim>\<open>message.type\<close> can throw in the handler itself; the loops and
  \<^verbatim>\<open>normalizePeer\<close> run in the updaters.
\<close>

definition p2p_handleMessage :: "(json \<Rightarrow> string) \<Rightarrow> json \<Rightarrow> P2PState \<Rightarrow> P2PState outcome" where
  "p2p_handleMessage toStr msg s =
     (if nullish msg then Caught TypeError
      else if jprop msg ''type'' = JStr ''peers_list'' then
        (case iterate (frame_peers msg) of
           Inl e \<Rightarrow> Crashed e
         | Inr ps \<Rightarrow>
             (case set_peers toStr ps (peers s) of
                Inl e \<Rightarrow> Crashed e
              | Inr m \<Rightarrow> Done (s\<lparr>peers := m\<rparr>)))
      else if jprop msg ''type'' = JStr ''peer_joined'' then
        (let peerId = js_or (jprop msg ''peer_id'') (jprop (jprop msg ''data'') ''peer_id'');
             peerInfo = js_or (js_or (jprop msg ''peer_info'')
                                 (jprop (jprop msg ''data'') ''peer_info'')) msg
         in if truthy peerId then
              (case normalizePeer toStr (spread_with peerInfo ''id'' peerId) of
                 Inl e \<Rightarrow> Crashed e
               | Inr n \<Rightarrow> Done (s\<lparr>peers := map_set peerId n (peers s)\<rparr>))
            else Done s)
      else if jprop msg ''type'' = JStr ''peer_left'' then
        (let peerId = js_or (jprop msg ''peer_id'') (jprop (jprop msg ''data'') ''peer_id'')
         in if truthy peerId then Done (s\<lparr>peers := map_delete peerId (peers s)\<rparr>)
            else Done s)
      else if jprop msg ''type'' = JStr ''chat_message'' then
        Done (s\<lparr>messages := push_message (messages s) (js_or (jprop msg ''data'') msg)\<rparr>)
      else Done s)"

text \<open>
  The answer of \<^verbatim>\<open>fetch\<close>: the promise rejects (no network), or resolves with a
  response. \<open>body\<close> is what \<^verbatim>\<open>response.json()\<close> gives, \<open>None\<close> when the body is not
  JSON and the call rejects with a SyntaxError.
\<close>

record response =
  ok :: bool
  status :: nat
  body :: "json option"

datatype fetch_result = Rejected | Response response

text \<open>
  \<^verbatim>\<open>fetchPeers\<close>. The body is inside \<^verbatim>\<open>try { ... } catch (e) { console.error(...) }\<close>
  and nothing is thrown again: a rejected fetch, a body that is not JSON and a body
  whose \<^verbatim>\<open>length\<close> cannot be read (\<^verbatim>\<open>null\<close>) are logged, the state stays, and the
  promise the caller holds resolves, which is the second component. The status of the
  response is never read. Otherwise an update is queued that starts from
  \<^verbatim>\<open>new Map()\<close>; the first component is the state after it, or the error that its
  updater throws when React runs it, outside the \<^verbatim>\<open>try\<close>.
\<close>

definition fetchPeers :: "(json \<Rightarrow> string) \<Rightarrow> fetch_result \<Rightarrow> P2PState
    \<Rightarrow> (error + P2PState) \<times> (error + unit)" where
  "fetchPeers toStr r s =
     ((case r of
         Rejected \<Rightarrow> Inr s
       | Response resp \<Rightarrow>
           (case body resp of
              None \<Rightarrow> Inr s
            | Some ps \<Rightarrow>
                if nullish ps then Inr s
                else (case iterate ps of
                        Inl e \<Rightarrow> Inl e
                      | Inr items \<Rightarrow>
                          (case set_peers toStr items [] of
                             Inl e \<Rightarrow> Inl e
                           | Inr m \<Rightarrow> Inr (s\<lparr>peers := m\<rparr>))))),
      Inr ())"

section \<open>Workloads and nodes (useOrchestrator.ts)\<close>

text \<open>
  The entity types \<^verbatim>\<open>Workload\<close> and \<^verbatim>\<open>NodeHealth\<close> are casts of parsed JSON
  (\<^verbatim>\<open>event.data as Workload\<close>), so an entity is the value that arrived.
\<close>

record OrchestratorState =
  connected :: bool
  loading :: bool
  error :: "message_text option"
  workloads :: "json store"
  nodes :: "json store"
  clusterMetrics :: json

text \<open>
  \<^verbatim>\<open>for (const w of list) { m.set(w.id, w); }\<close>, with the name of the key
  (\<^verbatim>\<open>id\<close> for workloads, \<^verbatim>\<open>nodeId\<close> for nodes). Reading the key of \<^verbatim>\<open>null\<close> throws.
\<close>

fun set_all :: "string \<Rightarrow> json list \<Rightarrow> json store \<Rightarrow> error + json store" where
  "set_all key [] m = Inr m"
| "set_all key (w # ws) m =
     (if nullish w then Inl TypeError else set_all key ws (map_set (jprop w key) w m))"

text \<open>
  \<^verbatim>\<open>handleMessage\<close> of useOrchestrator.ts, on a parsed frame. In the handler itself
  only \<^verbatim>\<open>event.type\<close> and, for \<^verbatim>\<open>node_left\<close>, \<^verbatim>\<open>event.data.nodeId\<close> can throw; the
  loops and \<^verbatim>\<open>workload.id\<close>, \<^verbatim>\<open>node.nodeId\<close> are read in the updaters.
\<close>

definition orch_handleMessage :: "json \<Rightarrow> OrchestratorState \<Rightarrow> OrchestratorState outcome" where
  "orch_handleMessage event s =
     (if nullish event then Caught TypeError
      else if jprop event ''type'' = JStr ''workload_list'' then
        (case iterate (js_or (jprop event ''data'') (JArr [])) of
           Inl e \<Rightarrow> Crashed e
         | Inr ws \<Rightarrow>
             (case set_all ''id'' ws (workloads s) of
                Inl e \<Rightarrow> Crashed e
              | Inr m \<Rightarrow> Done (s\<lparr>workloads := m\<rparr>)))
      else if jprop event ''type'' \<in> {JStr ''workload_created'', JStr ''workload_updated'',
                                   JStr ''workload_completed'', JStr ''workload_failed''} then
        (case set_all ''id'' [jprop event ''data''] (workloads s) of
           Inl e \<Rightarrow> Crashed e
         | Inr m \<Rightarrow> Done (s\<lparr>workloads := m\<rparr>))
      else if jprop event ''type'' = JStr ''node_list'' then
        (case iterate (js_or (jprop event ''data'') (JArr [])) of
           Inl e \<Rightarrow> Crashed e
         | Inr ns \<Rightarrow>
             (case set_all ''nodeId'' ns (nodes s) of
                Inl e \<Rightarrow> Crashed e
              | Inr m \<Rightarrow> Done (s\<lparr>nodes := m\<rparr>)))
      else if jprop event ''type'' \<in> {JStr ''node_status'', JStr ''node_joined''} then
        (case set_all ''nodeId'' [jprop event ''data''] (nodes s) of
           Inl e \<Rightarrow> Crashed e
         | Inr m \<Rightarrow> Done (s\<lparr>nodes := m\<rparr>))
      else if jprop event ''type'' = JStr ''node_left'' then
        (if nullish (jprop event ''data'') then Caught TypeError
         else Done (s\<lparr>nodes := map_delete (jprop (jprop event ''data'') ''nodeId'') (nodes s)\<rparr>))
      else if jprop event ''type'' = JStr ''cluster_metrics'' then
        Done (s\<lparr>clusterMetrics := jprop event ''data''\<rparr>)
      else Done s)"

text \<open>
  The body of the \<^verbatim>\<open>try\<close> of \<^verbatim>\<open>fetchWorkloads\<close> and \<^verbatim>\<open>fetchNodes\<close>, with the name
  of the collection (the text of the error, the wrapping field) and of the key:
  \<^verbatim>\<open>if (!response.ok) throw new Error(`Failed to fetch workloads: ${response.status}`);
   const data = await response.json();
   const list = Array.isArray(data) ? data : data.workloads || [];
   for (const w of list) workloads.set(w.id, w);\<close>
\<close>

definition fetch_collection :: "string \<Rightarrow> string \<Rightarrow> fetch_result \<Rightarrow> error + json store" where
  "fetch_collection coll key r =
     (case r of
        Rejected \<Rightarrow> Inl FetchFailed
      | Response resp \<Rightarrow>
          if \<not> ok resp then
            Inl (Error (''Failed to fetch '' @ coll @ '': '' @ string_of_nat (status resp)))
          else
            (case body resp of
               None \<Rightarrow> Inl SyntaxError
             | Some data \<Rightarrow>
                 (case data of
                    JArr xs \<Rightarrow> set_all key xs []
                  | _ \<Rightarrow>
                      if nullish data then Inl TypeError
                      else (case iterate (js_or (jprop data coll) (JArr [])) of
                              Inl e \<Rightarrow> Inl e
                            | Inr xs \<Rightarrow> set_all key xs []))))"

text \<open>
  \<^verbatim>\<open>fetchWorkloads\<close> and \<^verbatim>\<open>fetchNodes\<close>: the state after the call and what the promise
  settles with. The \<^verbatim>\<open>catch\<close> stores the message and throws the error again.
\<close>

definition fetchWorkloads :: "fetch_result \<Rightarrow> OrchestratorState
    \<Rightarrow> OrchestratorState \<times> (error + json store)" where
  "fetchWorkloads r s =
     (case fetch_collection ''workloads'' ''id'' r of
        Inl e \<Rightarrow> (s\<lparr>error := Some (message e)\<rparr>, Inl e)
      | Inr m \<Rightarrow> (s\<lparr>workloads := m, error := None\<rparr>, Inr m))"

definition fetchNodes :: "fetch_result \<Rightarrow> OrchestratorState
    \<Rightarrow> OrchestratorState \<times> (error + json store)" where
  "fetchNodes r s =
     (case fetch_collection ''nodes'' ''nodeId'' r of
        Inl e \<Rightarrow> (s\<lparr>error := Some (message e)\<rparr>, Inl e)
      | Inr m \<Rightarrow> (s\<lparr>nodes := m, error := None\<rparr>, Inr m))"

section \<open>The connection: refs, sockets and timers\<close>

text \<open>
  Both hooks keep the same four refs and drive the same browser objects. The browser's
  side is part of the model: every socket made so far with its \<^verbatim>\<open>readyState\<close> (a socket
  is known by its position), and the pending timers, each with the identifier that
  \<^verbatim>\<open>window.setTimeout\<close> returned (a positive number) and its delay. The callback of every
  timer of the hooks is \<^verbatim>\<open>connect\<close>.
\<close>

datatype ready_state = CONNECTING | OPEN | CLOSING | CLOSED

text \<open>
  The delay handed to \<^verbatim>\<open>setTimeout\<close> is a double. \<^verbatim>\<open>reconnectInterval\<close> is taken to be
  a finite double, written as the real number it is. \<^verbatim>\<open>Math.pow(2, k)\<close> is the power
  of two up to \<^verbatim>\<open>k = 1023\<close> and \<^verbatim>\<open>Infinity\<close> beyond; the product of a double with a
  power of two is exact as long as it stays below 2 to the 1024, and an infinity of
  the sign of the interval otherwise (\<^verbatim>\<open>0 * Infinity\<close> is \<^verbatim>\<open>NaN\<close>).
\<close>

datatype js_number = Num real | PosInfinity | NegInfinity | NaN

definition finite_double :: "real \<Rightarrow> bool" where
  "finite_double x = (\<bar>x\<bar> < 2 ^ 1024)"

definition times_pow2 :: "real \<Rightarrow> nat \<Rightarrow> js_number" where
  "times_pow2 x k =
     (if k < 1024 \<and> finite_double (x * 2 ^ k) then Num (x * 2 ^ k)
      else if x = 0 then NaN
      else if 0 < x then PosInfinity
      else NegInfinity)"

record 's hook =
  wsRef :: "nat option"
  reconnectTimerRef :: "nat option"
  reconnectAttempts :: nat
  isConnecting :: bool
  sockets :: "ready_state list"
  timers :: "(nat \<times> js_number) list"
  nextTimer :: nat
  state :: 's

text \<open>
  The options of a hook. \<open>urlAccepted\<close> says whether \<^verbatim>\<open>new WebSocket(url)\<close> takes the
  URL; it throws a SyntaxError on one it cannot parse.
\<close>

record options =
  reconnectInterval :: real
  maxReconnectAttempts :: nat
  urlAccepted :: bool

text \<open>What a handler does to the world outside the hook, in order.\<close>

datatype effect =
    NewWebSocket nat
  | WsClose nat nat
  | WsSend nat json
  | SetTimeout nat js_number
  | ClearTimeout nat
  | ConsoleWarn string
  | Fetch string
  | Post string

text \<open>\<^verbatim>\<open>wsRef.current?.readyState\<close>\<close>

definition readyState :: "'s hook \<Rightarrow> ready_state option" where
  "readyState w =
     (case wsRef w of
        None \<Rightarrow> None
      | Some k \<Rightarrow> if k < length (sockets w) then Some (sockets w ! k) else None)"

text \<open>\<^verbatim>\<open>new WebSocket(url)\<close> and \<^verbatim>\<open>wsRef.current = ws\<close>\<close>

definition open_socket :: "'s hook \<Rightarrow> 's hook" where
  "open_socket w = w\<lparr>wsRef := Some (length (sockets w)), sockets := sockets w @ [CONNECTING]\<rparr>"

text \<open>
  The reconnection of \<^verbatim>\<open>ws.onclose\<close>, the same text in both hooks:
  \<^verbatim>\<open>if (event.code !== 1000 && reconnectAttemptsRef.current < maxReconnectAttempts) {
     reconnectAttemptsRef.current++;
     const backoffDelay = reconnectInterval * Math.pow(2, reconnectAttemptsRef.current - 1);
     reconnectTimerRef.current = window.setTimeout(connect, backoffDelay); }\<close>
\<close>

definition schedule_reconnect :: "options \<Rightarrow> nat \<Rightarrow> 's hook \<Rightarrow> 's hook \<times> effect list" where
  "schedule_reconnect opts code w =
     (if code \<noteq> 1000 \<and> reconnectAttempts w < maxReconnectAttempts opts then
        (let n = reconnectAttempts w + 1;
             backoffDelay = times_pow2 (reconnectInterval opts) (n - 1);
             t = nextTimer w
         in (w\<lparr>reconnectAttempts := n, timers := timers w @ [(t, backoffDelay)],
                nextTimer := t + 1, reconnectTimerRef := Some t\<rparr>,
             [SetTimeout t backoffDelay]))
      else (w, []))"

text \<open>
  \<^verbatim>\<open>disconnect\<close>, the same text in both hooks. \<^verbatim>\<open>close\<close> takes a socket that is
  connecting or open to CLOSING and leaves any other as it is.
\<close>

fun closing :: "ready_state \<Rightarrow> ready_state" where
  "closing CONNECTING = CLOSING"
| "closing OPEN = CLOSING"
| "closing r = r"

definition disconnect :: "'s hook \<Rightarrow> 's hook \<times> effect list" where
  "disconnect w =
     (let (w1, e1) =
            (case reconnectTimerRef w of
               None \<Rightarrow> (w, [])
             | Some t \<Rightarrow>
                 if t = 0 then (w, [])
                 else (w\<lparr>timers := filter (\<lambda>(i, d). i \<noteq> t) (timers w),
                         reconnectTimerRef := None\<rparr>, [ClearTimeout t]));
          w2 = w1\<lparr>reconnectAttempts := 0, isConnecting := False\<rparr>
      in case wsRef w2 of
           None \<Rightarrow> (w2, e1)
         | Some k \<Rightarrow>
             (w2\<lparr>sockets := (sockets w2)[k := closing (sockets w2 ! k)], wsRef := None\<rparr>,
              e1 @ [WsClose k 1000]))"

text \<open>
  \<^verbatim>\<open>resetConnection\<close>, the same text in both hooks:
  \<^verbatim>\<open>disconnect(); setTimeout(() => connect(), 100);\<close>
  The handle of this timer is kept nowhere.
\<close>

definition resetConnection :: "'s hook \<Rightarrow> 's hook \<times> effect list" where
  "resetConnection w =
     (let (w1, e1) = disconnect w; t = nextTimer w1
      in (w1\<lparr>timers := timers w1 @ [(t, Num 100)], nextTimer := t + 1\<rparr>,
          e1 @ [SetTimeout t (Num 100)]))"

subsection \<open>useP2P.ts\<close>

definition p2p_connect :: "options \<Rightarrow> P2PState hook \<Rightarrow> P2PState hook \<times> effect list" where
  "p2p_connect opts w =
     (if isConnecting w then (w, [])
      else if readyState w = Some OPEN then (w, [])
      else if readyState w = Some CONNECTING then (w, [])
      else if reconnectAttempts w \<ge> maxReconnectAttempts opts then
        (w, [ConsoleWarn (''P2P: Max reconnect attempts (''
                @ string_of_nat (maxReconnectAttempts opts)
                @ '') reached. Stopping reconnection.'')])
      else if urlAccepted opts then
        (open_socket (w\<lparr>isConnecting := True\<rparr>), [NewWebSocket (length (sockets w))])
      else (w\<lparr>isConnecting := False\<rparr>, []))"

definition p2p_onopen :: "nat \<Rightarrow> P2PState hook \<Rightarrow> P2PState hook \<times> effect list" where
  "p2p_onopen k w =
     (w\<lparr>isConnecting := False, reconnectAttempts := 0,
        state := (state w)\<lparr>P2PState.connected := True\<rparr>\<rparr>,
      [Fetch ''/api/info'', Fetch ''/api/peers''])"

definition p2p_onclose :: "options \<Rightarrow> nat \<Rightarrow> nat \<Rightarrow> P2PState hook
    \<Rightarrow> P2PState hook \<times> effect list" where
  "p2p_onclose opts k code w =
     schedule_reconnect opts code
       (w\<lparr>isConnecting := False, wsRef := None,
          state := (state w)\<lparr>P2PState.connected := False\<rparr>\<rparr>)"

definition p2p_onerror :: "nat \<Rightarrow> P2PState hook \<Rightarrow> P2PState hook \<times> effect list" where
  "p2p_onerror k w = (w\<lparr>isConnecting := False\<rparr>, [ConsoleWarn ''P2P WebSocket connection error''])"

text \<open>
  \<^verbatim>\<open>sendChat(content, to)\<close>; \<open>now\<close> is \<^verbatim>\<open>Date.now()\<close>. The guard on the socket comes
  first and returns.
\<close>

definition sendChat :: "string \<Rightarrow> string option \<Rightarrow> nat \<Rightarrow> P2PState hook
    \<Rightarrow> P2PState hook \<times> effect list" where
  "sendChat content to now w =
     (case (wsRef w, readyState w) of
        (Some k, Some OPEN) \<Rightarrow>
          (let toV = (case to of None \<Rightarrow> JUndefined | Some t \<Rightarrow> JStr t);
               localId = (case localPeerId (state w) of
                            None \<Rightarrow> ''unknown''
                          | Some l \<Rightarrow> if l = [] then ''unknown'' else l);
               shortId = take 8 localId;
               chatMessage = JObj [(''id'', JStr (''local-'' @ string_of_nat now)),
                                   (''from'', JStr localId),
                                   (''from_name'', JStr (''Peer-'' @ shortId @ '' (you)'')),
                                   (''to'', js_or toV JUndefined),
                                   (''content'', JStr content),
                                   (''timestamp'', JNum (real now))]
           in (w\<lparr>state := (state w)\<lparr>messages := push_message (messages (state w)) chatMessage\<rparr>\<rparr>,
               [WsSend k (JObj [(''type'', JStr ''send_chat''), (''content'', JStr content),
                                (''to'', toV)])]))
      | _ \<Rightarrow> (w, [ConsoleWarn ''WebSocket not open! State:'']))"

subsection \<open>useOrchestrator.ts\<close>

definition orch_connect :: "options \<Rightarrow> OrchestratorState hook
    \<Rightarrow> OrchestratorState hook \<times> effect list" where
  "orch_connect opts w =
     (if isConnecting w then (w, [])
      else if readyState w = Some OPEN then (w, [])
      else if readyState w = Some CONNECTING then (w, [])
      else if reconnectAttempts w \<ge> maxReconnectAttempts opts then
        (w\<lparr>state := (state w)\<lparr>connected := False, loading := False,
              error := Some (Literal (''Connection failed after ''
                             @ string_of_nat (maxReconnectAttempts opts)
                             @ '' attempts. Server may be unavailable.''))\<rparr>\<rparr>,
         [ConsoleWarn (''Orchestrator: Max reconnect attempts (''
                @ string_of_nat (maxReconnectAttempts opts)
                @ '') reached. Stopping reconnection.'')])
      else if urlAccepted opts then
        (open_socket (w\<lparr>isConnecting := True,
                        state := (state w)\<lparr>loading := True, error := None\<rparr>\<rparr>),
         [NewWebSocket (length (sockets w))])
      else (w\<lparr>isConnecting := False,
              state := (state w)\<lparr>loading := False, error := Some (message SyntaxError)\<rparr>\<rparr>, []))"

definition subscribe :: "string \<Rightarrow> json" where
  "subscribe topic = JObj [(''type'', JStr ''subscribe''), (''topic'', JStr topic)]"

text \<open>
  \<^verbatim>\<open>ws.onopen\<close>. It sets \<^verbatim>\<open>connected\<close> true, \<^verbatim>\<open>loading\<close> false and \<^verbatim>\<open>error\<close> null
  and calls \<^verbatim>\<open>fetchOrchestratorData\<close>, which before its first \<^verbatim>\<open>await\<close> sets
  \<^verbatim>\<open>loading\<close> true and \<^verbatim>\<open>error\<close> null and issues the three requests; then the four
  subscriptions are sent on the socket that opened.
\<close>

definition orch_onopen :: "nat \<Rightarrow> OrchestratorState hook
    \<Rightarrow> OrchestratorState hook \<times> effect list" where
  "orch_onopen k w =
     (w\<lparr>isConnecting := False, reconnectAttempts := 0,
        state := (state w)\<lparr>connected := True, loading := True, error := None\<rparr>\<rparr>,
      [Fetch ''/orchestrator/workloads'', Fetch ''/orchestrator/nodes'',
       Fetch ''/orchestrator/metrics'',
       WsSend k (subscribe ''orchestrator''), WsSend k (subscribe ''workloads''),
       WsSend k (subscribe ''nodes''), WsSend k (subscribe ''cluster'')])"

definition orch_onclose :: "options \<Rightarrow> nat \<Rightarrow> nat \<Rightarrow> OrchestratorState hook
    \<Rightarrow> OrchestratorState hook \<times> effect list" where
  "orch_onclose opts k code w =
     schedule_reconnect opts code
       (w\<lparr>isConnecting := False, wsRef := None,
          state := (state w)\<lparr>connected := False\<rparr>\<rparr>)"

definition orch_onerror :: "nat \<Rightarrow> OrchestratorState hook
    \<Rightarrow> OrchestratorState hook \<times> effect list" where
  "orch_onerror k w =
     (w\<lparr>isConnecting := False,
        state := (state w)\<lparr>connected := False, loading := False,
                   error := Some (Literal ''WebSocket connection failed'')\<rparr>\<rparr>,
      [ConsoleWarn ''Orchestrator WebSocket connection error''])"

text \<open>\<^verbatim>\<open>sendWorkloadCommand(command, workloadId)\<close>: sent only on an open socket.\<close>

definition sendWorkloadCommand :: "string \<Rightarrow> string \<Rightarrow> 's hook \<Rightarrow> effect list" where
  "sendWorkloadCommand command workloadId w =
     (case (wsRef w, readyState w) of
        (Some k, Some OPEN) \<Rightarrow>
          [WsSend k (JObj [(''type'', JStr (''workload_'' @ command)),
                           (''workloadId'', JStr workloadId), (''data'', JUndefined)])]
      | _ \<Rightarrow> [])"

text \<open>
  \<^verbatim>\<open>cancelWorkload\<close> and \<^verbatim>\<open>retryWorkload\<close> are async functions with one suspension,
  \<^verbatim>\<open>await fetch(..., { method: 'POST' })\<close>. Up to it they only issue the request: that
  is \<open>command_start\<close>. What follows once the request has settled is the second function:
  \<^verbatim>\<open>if (!response.ok) throw new Error(`Failed to cancel workload: ${response.status}`);
   setState(s => { ...; const workload = newWorkloads.get(workloadId);
     if (workload) newWorkloads.set(workloadId, { ...workload, status: 'cancelled' }); ... });
   sendWorkloadCommand('cancel', workloadId);\<close>
  with the \<^verbatim>\<open>catch\<close> that stores the message and throws again.
\<close>

definition command_start :: "string \<Rightarrow> string \<Rightarrow> OrchestratorState hook
    \<Rightarrow> OrchestratorState hook \<times> effect list" where
  "command_start verb workloadId w =
     (w, [Post (''/orchestrator/workloads/'' @ workloadId @ ''/'' @ verb)])"

definition command_response :: "string \<Rightarrow> fetch_result \<Rightarrow> error + unit" where
  "command_response verb r =
     (case r of
        Rejected \<Rightarrow> Inl FetchFailed
      | Response resp \<Rightarrow>
          if \<not> ok resp then
            Inl (Error (''Failed to '' @ verb @ '' workload: '' @ string_of_nat (status resp)))
          else Inr ())"

definition update_workload :: "string \<Rightarrow> (json \<Rightarrow> json) \<Rightarrow> json store \<Rightarrow> json store" where
  "update_workload workloadId f m =
     (case map_get m (JStr workloadId) of
        None \<Rightarrow> m
      | Some workload \<Rightarrow>
          if truthy workload then map_set (JStr workloadId) (f workload) m else m)"

definition cancelWorkload :: "string \<Rightarrow> fetch_result \<Rightarrow> OrchestratorState hook
    \<Rightarrow> OrchestratorState hook \<times> effect list \<times> (error + unit)" where
  "cancelWorkload workloadId r w =
     (case command_response ''cancel'' r of
        Inl e \<Rightarrow> (w\<lparr>state := (state w)\<lparr>error := Some (message e)\<rparr>\<rparr>, [], Inl e)
      | Inr u \<Rightarrow>
          (w\<lparr>state := (state w)\<lparr>workloads :=
                update_workload workloadId
                  (\<lambda>workload. spread_with workload ''status'' (JStr ''cancelled''))
                  (workloads (state w))\<rparr>\<rparr>,
           sendWorkloadCommand ''cancel'' workloadId w, Inr ()))"

definition retryWorkload :: "string \<Rightarrow> fetch_result \<Rightarrow> OrchestratorState hook
    \<Rightarrow> OrchestratorState hook \<times> effect list \<times> (error + unit)" where
  "retryWorkload workloadId r w =
     (case command_response ''retry'' r of
        Inl e \<Rightarrow> (w\<lparr>state := (state w)\<lparr>error := Some (message e)\<rparr>\<rparr>, [], Inl e)
      | Inr u \<Rightarrow>
          (w\<lparr>state := (state w)\<lparr>workloads :=
                update_workload workloadId
                  (\<lambda>workload. spread_with (spread_with workload ''status'' (JStr ''pending''))
                                ''progress'' (JNum 0))
                  (workloads (state w))\<rparr>\<rparr>,
           sendWorkloadCommand ''retry'' workloadId w, Inr ()))"

text \<open>
  \<^verbatim>\<open>createWorkload\<close> after its \<^verbatim>\<open>await fetch\<close>. A failed request stores the message
  and throws again. Otherwise the promise resolves with the entity of the response,
  and the queued update stores it under its \<^verbatim>\<open>id\<close>; the updater throws when the
  entity is \<^verbatim>\<open>null\<close>. The first component is the state after the update, or the
  error of its updater.
\<close>

definition createWorkload :: "fetch_result \<Rightarrow> OrchestratorState
    \<Rightarrow> (error + OrchestratorState) \<times> (error + json)" where
  "createWorkload r s =
     (case (case r of
              Rejected \<Rightarrow> Inl FetchFailed
            | Response resp \<Rightarrow>
                if \<not> ok resp then
                  Inl (Error (''Failed to create workload: '' @ string_of_nat (status resp)))
                else (case body resp of
                        None \<Rightarrow> Inl SyntaxError
                      | Some newWorkload \<Rightarrow> Inr newWorkload)) of
        Inl e \<Rightarrow> (Inr (s\<lparr>error := Some (message e)\<rparr>), Inl e)
      | Inr newWorkload \<Rightarrow>
          (case set_all ''id'' [newWorkload] (workloads s) of
             Inl e \<Rightarrow> Inl e
           | Inr m \<Rightarrow> Inr (s\<lparr>workloads := m\<rparr>),
           Inr newWorkload))"

subsection \<open>What the browser delivers\<close>

text \<open>
  A socket that is connecting may open; a socket that is not closed may report an
  error and may close, with a code; a pending timer may fire, which takes it off the
  pending timers and calls \<^verbatim>\<open>connect\<close>. Nothing else reaches the handlers.
\<close>

datatype event = SockOpen nat | SockClose nat nat | SockError nat | TimerFired nat

definition pending :: "nat \<Rightarrow> 's hook \<Rightarrow> bool" where
  "pending t w = (t \<in> fst ` set (timers w))"

definition take_timer :: "nat \<Rightarrow> 's hook \<Rightarrow> 's hook" where
  "take_timer t w = w\<lparr>timers := filter (\<lambda>(i, d). i \<noteq> t) (timers w)\<rparr>"

definition set_ready :: "nat \<Rightarrow> ready_state \<Rightarrow> 's hook \<Rightarrow> 's hook" where
  "set_ready k r w = w\<lparr>sockets := (sockets w)[k := r]\<rparr>"

definition live :: "nat \<Rightarrow> 's hook \<Rightarrow> bool" where
  "live k w = (k < length (sockets w) \<and> sockets w ! k \<noteq> CLOSED)"

definition p2p_step :: "options \<Rightarrow> event \<Rightarrow> P2PState hook \<Rightarrow> P2PState hook \<times> effect list" where
  "p2p_step opts ev w =
     (case ev of
        SockOpen k \<Rightarrow>
          if k < length (sockets w) \<and> sockets w ! k = CONNECTING
          then p2p_onopen k (set_ready k OPEN w) else (w, [])
      | SockClose k code \<Rightarrow>
          if live k w then p2p_onclose opts k code (set_ready k CLOSED w) else (w, [])
      | SockError k \<Rightarrow> if live k w then p2p_onerror k w else (w, [])
      | TimerFired t \<Rightarrow> if pending t w then p2p_connect opts (take_timer t w) else (w, []))"

definition orch_step :: "options \<Rightarrow> event \<Rightarrow> OrchestratorState hook
    \<Rightarrow> OrchestratorState hook \<times> effect list" where
  "orch_step opts ev w =
     (case ev of
        SockOpen k \<Rightarrow>
          if k < length (sockets w) \<and> sockets w ! k = CONNECTING
          then orch_onopen k (set_ready k OPEN w) else (w, [])
      | SockClose k code \<Rightarrow>
          if live k w then orch_onclose opts k code (set_ready k CLOSED w) else (w, [])
      | SockError k \<Rightarrow> if live k w then orch_onerror k w else (w, [])
      | TimerFired t \<Rightarrow> if pending t w then orch_connect opts (take_timer t w) else (w, []))"

text \<open>A run of events, with everything the handlers did on the way.\<close>

fun p2p_run :: "options \<Rightarrow> event list \<Rightarrow> P2PState hook \<Rightarrow> P2PState hook \<times> effect list" where
  "p2p_run opts [] w = (w, [])"
| "p2p_run opts (ev # evs) w =
     (let (w1, e1) = p2p_step opts ev w; (w2, e2) = p2p_run opts evs w1 in (w2, e1 @ e2))"

fun orch_run :: "options \<Rightarrow> event list \<Rightarrow> OrchestratorState hook
    \<Rightarrow> OrchestratorState hook \<times> effect list" where
  "orch_run opts [] w = (w, [])"
| "orch_run opts (ev # evs) w =
     (let (w1, e1) = orch_step opts ev w; (w2, e2) = orch_run opts evs w1 in (w2, e1 @ e2))"

text \<open>
  What the component and its user call. useP2P calls \<^verbatim>\<open>connect\<close> when it is
  mounted, useOrchestrator does when \<^verbatim>\<open>autoConnect\<close> is set, as it is by default; both
  call \<^verbatim>\<open>disconnect\<close> when they are unmounted, and both give out \<^verbatim>\<open>disconnect\<close>
  and \<^verbatim>\<open>resetConnection\<close>; useOrchestrator gives out \<^verbatim>\<open>connect\<close> too.
  A trace is a list of calls and of events that the browser delivers.
\<close>

datatype call = Connect | Disconnect | ResetConnection

datatype action = Called call | Delivered event

definition p2p_act :: "options \<Rightarrow> action \<Rightarrow> P2PState hook \<Rightarrow> P2PState hook \<times> effect list" where
  "p2p_act opts a w =
     (case a of
        Called Connect \<Rightarrow> p2p_connect opts w
      | Called Disconnect \<Rightarrow> disconnect w
      | Called ResetConnection \<Rightarrow> resetConnection w
      | Delivered ev \<Rightarrow> p2p_step opts ev w)"

definition orch_act :: "options \<Rightarrow> action \<Rightarrow> OrchestratorState hook
    \<Rightarrow> OrchestratorState hook \<times> effect list" where
  "orch_act opts a w =
     (case a of
        Called Connect \<Rightarrow> orch_connect opts w
      | Called Disconnect \<Rightarrow> disconnect w
      | Called ResetConnection \<Rightarrow> resetConnection w
      | Delivered ev \<Rightarrow> orch_step opts ev w)"

fun p2p_trace :: "options \<Rightarrow> action list \<Rightarrow> P2PState hook \<Rightarrow> P2PState hook \<times> effect list" where
  "p2p_trace opts [] w = (w, [])"
| "p2p_trace opts (a # as) w =
     (let (w1, e1) = p2p_act opts a w; (w2, e2) = p2p_trace opts as w1 in (w2, e1 @ e2))"

fun orch_trace :: "options \<Rightarrow> action list \<Rightarrow> OrchestratorState hook
    \<Rightarrow> OrchestratorState hook \<times> effect list" where
  "orch_trace opts [] w = (w, [])"
| "orch_trace opts (a # as) w =
     (let (w1, e1) = orch_act opts a w; (w2, e2) = orch_trace opts as w1 in (w2, e1 @ e2))"

text \<open>
  Consecutive abnormal closes: the socket the hook holds closes with \<open>code\<close>, the
  reconnection that \<^verbatim>\<open>onclose\<close> scheduled fires, the socket it made closes again, and
  so on, with no open in between. \<open>failures n\<close> is the hook right after the \<open>n\<close>-th
  close, with what that close did.
\<close>

definition the_socket :: "'s hook \<Rightarrow> nat" where
  "the_socket w = (case wsRef w of None \<Rightarrow> length (sockets w) | Some k \<Rightarrow> k)"

definition the_timer :: "'s hook \<Rightarrow> nat" where
  "the_timer w = (case reconnectTimerRef w of None \<Rightarrow> 0 | Some t \<Rightarrow> t)"

fun p2p_failures :: "options \<Rightarrow> nat \<Rightarrow> nat \<Rightarrow> P2PState hook \<Rightarrow> P2PState hook \<times> effect list" where
  "p2p_failures opts code 0 w = (w, [])"
| "p2p_failures opts code (Suc n) w =
     (let w1 = fst (p2p_failures opts code n w);
          w2 = fst (p2p_step opts (TimerFired (the_timer w1)) w1)
      in p2p_step opts (SockClose (the_socket w2) code) w2)"

fun orch_failures :: "options \<Rightarrow> nat \<Rightarrow> nat \<Rightarrow> OrchestratorState hook
    \<Rightarrow> OrchestratorState hook \<times> effect list" where
  "orch_failures opts code 0 w = (w, [])"
| "orch_failures opts code (Suc n) w =
     (let w1 = fst (orch_failures opts code n w);
          w2 = fst (orch_step opts (TimerFired (the_timer w1)) w1)
      in orch_step opts (SockClose (the_socket w2) code) w2)"

text \<open>The hooks as they are mounted: no socket, no timer, empty stores.\<close>

definition fresh :: "'s \<Rightarrow> 's hook" where
  "fresh s = \<lparr>wsRef = None, reconnectTimerRef = None, reconnectAttempts = 0,
              isConnecting = False, sockets = [], timers = [], nextTimer = 1, state = s\<rparr>"

definition p2p_initial :: P2PState where
  "p2p_initial = \<lparr>P2PState.connected = False, localPeerId = None, peers = [], messages = []\<rparr>"

definition orch_initial :: OrchestratorState where
  "orch_initial = \<lparr>connected = False, loading = False, error = None, workloads = [],
                   nodes = [], clusterMetrics = JNull\<rparr>"

section \<open>Sequences of operations on the stores\<close>

text \<open>
  \<^verbatim>\<open>ws.onmessage\<close> on a parsed frame: the state after the frame, which is the state of
  before when the handler threw and the \<^verbatim>\<open>catch\<close> logged it, or the error of an
  updater, after which the component is gone.
\<close>

definition p2p_onmessage :: "(json \<Rightarrow> string) \<Rightarrow> json \<Rightarrow> P2PState \<Rightarrow> error + P2PState" where
  "p2p_onmessage toStr msg s =
     (case p2p_handleMessage toStr msg s of
        Done s' \<Rightarrow> Inr s'
      | Caught e \<Rightarrow> Inr s
      | Crashed e \<Rightarrow> Inl e)"

text \<open>
  In useOrchestrator.ts \<^verbatim>\<open>ws.onmessage\<close> hands a frame to the handler only if
  \<^verbatim>\<open>message.type?.startsWith('workload_') || message.type?.startsWith('node_') ||
   message.type === 'cluster_metrics' || message.type === 'workload_list' ||
   message.type === 'node_list'\<close>.
  A type that is \<^verbatim>\<open>null\<close> or \<^verbatim>\<open>undefined\<close> fails the test; on any other type that is
  not a string \<^verbatim>\<open>startsWith\<close> is not a function, and the call throws inside the
  \<^verbatim>\<open>try\<close>, as reading the type of \<^verbatim>\<open>null\<close> does. In all these cases the state stays.
\<close>

definition forwarded :: "json \<Rightarrow> bool" where
  "forwarded ty =
     (case ty of
        JStr t \<Rightarrow> take 9 t = ''workload_'' \<or> take 5 t = ''node_'' \<or> t = ''cluster_metrics''
                    \<or> t = ''workload_list'' \<or> t = ''node_list''
      | _ \<Rightarrow> False)"

definition orch_onmessage :: "json \<Rightarrow> OrchestratorState \<Rightarrow> error + OrchestratorState" where
  "orch_onmessage msg s =
     (if nullish msg \<or> \<not> forwarded (jprop msg ''type'') then Inr s
      else (case orch_handleMessage msg s of
              Done s' \<Rightarrow> Inr s'
            | Caught e \<Rightarrow> Inr s
            | Crashed e \<Rightarrow> Inl e))"

text \<open>
  The operations that touch the stores, and a sequence of them. A sequence ends at
  the first error that takes the component down.
\<close>

datatype p2p_op = Frame json | PeersFetched fetch_result

fun p2p_apply :: "(json \<Rightarrow> string) \<Rightarrow> p2p_op \<Rightarrow> P2PState \<Rightarrow> error + P2PState" where
  "p2p_apply toStr (Frame msg) s = p2p_onmessage toStr msg s"
| "p2p_apply toStr (PeersFetched r) s = fst (fetchPeers toStr r s)"

fun p2p_ops :: "(json \<Rightarrow> string) \<Rightarrow> p2p_op list \<Rightarrow> P2PState \<Rightarrow> error + P2PState" where
  "p2p_ops toStr [] s = Inr s"
| "p2p_ops toStr (x # xs) s =
     (case p2p_apply toStr x s of Inl e \<Rightarrow> Inl e | Inr s' \<Rightarrow> p2p_ops toStr xs s')"

datatype orch_op =
    Event json
  | WorkloadsFetched fetch_result
  | NodesFetched fetch_result
  | Created fetch_result
  | Cancelled string fetch_result
  | Retried string fetch_result

fun orch_apply :: "orch_op \<Rightarrow> OrchestratorState hook \<Rightarrow> error + OrchestratorState hook" where
  "orch_apply (Event msg) w =
     (case orch_onmessage msg (state w) of Inl e \<Rightarrow> Inl e | Inr s' \<Rightarrow> Inr (w\<lparr>state := s'\<rparr>))"
| "orch_apply (WorkloadsFetched r) w = Inr (w\<lparr>state := fst (fetchWorkloads r (state w))\<rparr>)"
| "orch_apply (NodesFetched r) w = Inr (w\<lparr>state := fst (fetchNodes r (state w))\<rparr>)"
| "orch_apply (Created r) w =
     (case fst (createWorkload r (state w)) of
        Inl e \<Rightarrow> Inl e
      | Inr s' \<Rightarrow> Inr (w\<lparr>state := s'\<rparr>))"
| "orch_apply (Cancelled workloadId r) w = Inr (fst (cancelWorkload workloadId r w))"
| "orch_apply (Retried workloadId r) w = Inr (fst (retryWorkload workloadId r w))"

fun orch_ops :: "orch_op list \<Rightarrow> OrchestratorState hook \<Rightarrow> error + OrchestratorState hook" where
  "orch_ops [] w = Inr w"
| "orch_ops (x # xs) w =
     (case orch_apply x w of Inl e \<Rightarrow> Inl e | Inr w' \<Rightarrow> orch_ops xs w')"

section \<open>The properties, stated\<close>

text \<open>
  \<open>upserts\<close> is the store after the entities of a list have been set one after the
  other, each under its key.
\<close>

definition upserts :: "('e \<Rightarrow> json) \<Rightarrow> 'e list \<Rightarrow> 'e store \<Rightarrow> 'e store" where
  "upserts key es m = foldl (\<lambda>m e. map_set (key e) e m) m es"

text \<open>The peers of a snapshot that the loop of \<open>set_peers\<close> stores: those with a truthy id.\<close>

fun valid_peers :: "(json \<Rightarrow> string) \<Rightarrow> json list \<Rightarrow> NormalizedPeer list" where
  "valid_peers toStr [] = []"
| "valid_peers toStr (p # ps) =
     (case normalizePeer toStr p of
        Inl e \<Rightarrow> valid_peers toStr ps
      | Inr n \<Rightarrow> if truthy (id' n) then n # valid_peers toStr ps else valid_peers toStr ps)"

text \<open>
  A store holds an entity under a key: for a primitive key, \<^verbatim>\<open>get\<close> finds it; a key
  that is an array or an object has its own entry.
\<close>

definition holds :: "'e store \<Rightarrow> json \<Rightarrow> 'e \<Rightarrow> bool" where
  "holds m k v = (if primitive k then map_get m k = Some v else (k, v) \<in> set m)"

text \<open>
  A snapshot is merged into a store: under the key of each entity of the snapshot the
  store holds an entity of the snapshot with that key, and every entry of before whose
  key the snapshot does not have is still there. A snapshot has replaced a store: the
  first again, and every entry of the store is an entity of the snapshot under its key.
\<close>

definition merged :: "('e \<Rightarrow> json) \<Rightarrow> 'e list \<Rightarrow> 'e store \<Rightarrow> 'e store \<Rightarrow> bool" where
  "merged key snapshot before after \<longleftrightarrow>
     (\<forall>e \<in> set snapshot.
        \<exists>e' \<in> set snapshot. key e' = key e \<and> holds after (key e) e')
   \<and> (\<forall>k v. holds before k v \<and> k \<notin> key ` set snapshot \<longrightarrow> holds after k v)"

definition replaced :: "('e \<Rightarrow> json) \<Rightarrow> 'e list \<Rightarrow> 'e store \<Rightarrow> bool" where
  "replaced key snapshot after \<longleftrightarrow>
     (\<forall>e \<in> set snapshot.
        \<exists>e' \<in> set snapshot. key e' = key e \<and> holds after (key e) e')
   \<and> (\<forall>(k, v) \<in> set after. v \<in> set snapshot \<and> key v = k)"

text \<open>
  One entry per identifier: no primitive key occurs twice. (An array or an object is
  a key of its own, whatever it contains.) For peers moreover every identifier is
  truthy and is the id of the entity.
\<close>

definition one_per_id :: "'e store \<Rightarrow> bool" where
  "one_per_id m = distinct (filter primitive (map fst m))"

definition peers_ok :: "NormalizedPeer store \<Rightarrow> bool" where
  "peers_ok m \<longleftrightarrow> one_per_id m \<and> (\<forall>(k, n) \<in> set m. truthy k \<and> id' n = k)"

text \<open>A number of the closed interval from 0 to 1.\<close>

definition unit_interval :: "json \<Rightarrow> bool" where
  "unit_interval v = (case v of JNum r \<Rightarrow> 0 \<le> r \<and> r \<le> 1 | _ \<Rightarrow> False)"

definition stores_ok :: "OrchestratorState \<Rightarrow> bool" where
  "stores_ok s \<longleftrightarrow> one_per_id (workloads s) \<and> one_per_id (nodes s)"

text \<open>The sockets that a list of effects opens: the connection attempts made.\<close>

fun opened :: "effect list \<Rightarrow> nat list" where
  "opened [] = []"
| "opened (NewWebSocket k # es) = k # opened es"
| "opened (e # es) = opened es"

text \<open>
  A hook that has just connected: it holds a socket that is not closed, no timer is
  pending and the reconnect counter is zero. This is the hook after its first
  \<^verbatim>\<open>connect\<close>, and after the open of a socket that a reconnection made.
\<close>

definition connected_anew :: "'s hook \<Rightarrow> bool" where
  "connected_anew w \<longleftrightarrow>
     (case wsRef w of None \<Rightarrow> False | Some k \<Rightarrow> live k w)
     \<and> timers w = [] \<and> reconnectAttempts w = 0"

text \<open>No socket is left that could still deliver an event.\<close>

definition all_closed :: "'s hook \<Rightarrow> bool" where
  "all_closed w = list_all (\<lambda>r. r = CLOSED) (sockets w)"

text \<open>The options the hooks take when none are given: 3000 ms, five attempts.\<close>

definition default_options :: options where
  "default_options = \<lparr>reconnectInterval = 3000, maxReconnectAttempts = 5, urlAccepted = True\<rparr>"

section \<open>Stores: setting, merging, replacing\<close>

lemma map_get_set:
  "primitive k' \<Longrightarrow> map_get (map_set k v m) k' = (if k' = k then Some v else map_get m k')"
  by (auto simp: map_get_def map_set_def update_conv' map_add_def split: option.splits)

lemma in_map_set_same: "(k, v) \<in> set (map_set k v m)"
  unfolding map_set_def by (induction m) auto

lemma in_map_set_other: "(k', v') \<in> set m \<Longrightarrow> k' \<noteq> k \<Longrightarrow> (k', v') \<in> set (map_set k v m)"
  unfolding map_set_def by (induction m) auto

lemma set_map_set: "set (map_set k v m) \<subseteq> insert (k, v) (set m)"
  unfolding map_set_def by (induction m) auto

lemma set_map_delete: "set (map_delete k m) \<subseteq> set m"
  by (auto simp: map_delete_def AList.delete_eq)

lemma holds_set_same: "holds (map_set k v m) k v"
  by (simp add: holds_def map_get_set in_map_set_same)

lemma holds_set_other: "holds m k' v' \<Longrightarrow> k' \<noteq> k \<Longrightarrow> holds (map_set k v m) k' v'"
  by (simp add: holds_def map_get_set in_map_set_other)

lemma upserts_snoc: "upserts key (es @ [e]) m = map_set (key e) e (upserts key es m)"
  by (simp add: upserts_def)

lemma upserts_Nil: "upserts key [] m = m"
  by (simp add: upserts_def)

lemma upserts_latest:
  "e \<in> set es \<Longrightarrow> \<exists>e' \<in> set es. key e' = key e \<and> holds (upserts key es m) (key e) e'"
proof (induction es rule: rev_induct)
  case Nil
  then show ?case by simp
next
  case (snoc x xs)
  show ?case
  proof (cases "key e = key x")
    case True
    then show ?thesis
      by (auto simp: upserts_snoc holds_set_same)
  next
    case False
    with snoc.prems have "e \<in> set xs" by auto
    from snoc.IH[OF this] obtain e' where "e' \<in> set xs" "key e' = key e"
      "holds (upserts key xs m) (key e) e'" by blast
    with False show ?thesis
      by (auto simp: upserts_snoc holds_set_other)
  qed
qed

lemma upserts_keeps:
  "holds m k v \<Longrightarrow> k \<notin> key ` set es \<Longrightarrow> holds (upserts key es m) k v"
  by (induction es rule: rev_induct) (auto simp: upserts_Nil upserts_snoc holds_set_other)

lemma set_upserts: "set (upserts key es m) \<subseteq> set m \<union> (\<lambda>e. (key e, e)) ` set es"
proof (induction es rule: rev_induct)
  case Nil
  show ?case by (simp add: upserts_Nil)
next
  case (snoc x xs)
  with set_map_set[of "key x" x "upserts key xs m"] show ?case
    by (auto simp: upserts_snoc)
qed

lemma merged_upserts: "merged key es m (upserts key es m)"
  unfolding merged_def by (blast intro: upserts_latest upserts_keeps)

lemma replaced_upserts: "replaced key es (upserts key es [])"
  unfolding replaced_def using set_upserts[of key es "[]"]
  by (auto intro: upserts_latest)

lemma set_all_upserts:
  "set_all key ws m = Inr m' \<Longrightarrow> m' = upserts (\<lambda>w. jprop w key) ws m"
  unfolding upserts_def
  by (induction ws arbitrary: m) (auto split: if_splits)

lemma set_peers_upserts:
  "set_peers toStr ps m = Inr m' \<Longrightarrow> m' = upserts id' (valid_peers toStr ps) m"
  unfolding upserts_def
  by (induction ps arbitrary: m) (auto split: if_splits sum.splits)

lemma valid_peers_truthy: "n \<in> set (valid_peers toStr ps) \<Longrightarrow> truthy (id' n)"
  by (induction ps) (auto split: sum.splits if_splits)

lemma jprop_spread_same: "jprop (spread_with v f x) f = x"
  by (simp add: spread_with_def update_conv')

lemma one_per_id_set: "one_per_id m \<Longrightarrow> one_per_id (map_set k v m)"
  by (auto simp: one_per_id_def map_set_def update_keys)

lemma distinct_filter_removeAll:
  "distinct (filter P xs) \<Longrightarrow> distinct (filter P (removeAll k xs))"
  by (induction xs) auto

lemma one_per_id_delete: "one_per_id m \<Longrightarrow> one_per_id (map_delete k m)"
  by (auto simp: one_per_id_def map_delete_def delete_keys distinct_filter_removeAll)

lemma one_per_id_upserts: "one_per_id m \<Longrightarrow> one_per_id (upserts key es m)"
  by (induction es rule: rev_induct) (simp_all add: upserts_Nil upserts_snoc one_per_id_set)

lemma peers_ok_upserts:
  assumes "peers_ok m" and "\<forall>n \<in> set es. truthy (id' n)"
  shows "peers_ok (upserts id' es m)"
  using assms set_upserts[of id' es m]
  by (fastforce simp: peers_ok_def one_per_id_upserts)

lemma peers_ok_set:
  assumes "peers_ok m" and "truthy k" and "id' n = k"
  shows "peers_ok (map_set k n m)"
  using assms set_map_set[of k n m]
  by (fastforce simp: peers_ok_def one_per_id_set)

lemma peers_ok_delete: "peers_ok m \<Longrightarrow> peers_ok (map_delete k m)"
  using set_map_delete[of k m]
  by (fastforce simp: peers_ok_def one_per_id_delete)

lemma normalize_joined:
  assumes "normalizePeer toStr (spread_with info ''id'' k) = Inr n" and "truthy k"
  shows "id' n = k"
  using assms
  by (auto simp: normalizePeer_def jprop_spread_same js_or_def Let_def
           split: if_splits sum.splits)

lemma p2p_handleMessage_peers_ok:
  assumes "peers_ok (peers s)" and "p2p_handleMessage toStr msg s = Done s'"
  shows "peers_ok (peers s')"
proof -
  have list: "peers_ok m" if "set_peers toStr ps (peers s) = Inr m" for ps m
    using that assms(1) set_peers_upserts[OF that]
    by (simp add: peers_ok_upserts valid_peers_truthy)
  from assms show ?thesis
    by (auto simp: p2p_handleMessage_def Let_def list peers_ok_set peers_ok_delete
             split: if_splits sum.splits dest: normalize_joined)
qed

lemma fetchPeers_peers_ok:
  assumes "peers_ok (peers s)" and "fst (fetchPeers toStr r s) = Inr s'"
  shows "peers_ok (peers s')"
proof -
  have "peers_ok ([] :: NormalizedPeer store)"
    by (simp add: peers_ok_def one_per_id_def)
  then have list: "peers_ok m" if "set_peers toStr ps [] = Inr m" for ps m
    using set_peers_upserts[OF that]
    by (simp add: peers_ok_upserts valid_peers_truthy)
  from assms show ?thesis
    by (auto simp: fetchPeers_def list
             split: fetch_result.splits option.splits if_splits sum.splits)
qed

lemma p2p_apply_peers_ok:
  "peers_ok (peers s) \<Longrightarrow> p2p_apply toStr x s = Inr s' \<Longrightarrow> peers_ok (peers s')"
  by (cases x)
     (auto simp: p2p_onmessage_def split: outcome.splits
           dest: p2p_handleMessage_peers_ok fetchPeers_peers_ok)

lemma p2p_ops_peers_ok:
  "peers_ok (peers s) \<Longrightarrow> p2p_ops toStr xs s = Inr s' \<Longrightarrow> peers_ok (peers s')"
proof (induction xs arbitrary: s)
  case Nil
  then show ?case by simp
next
  case (Cons x xs)
  then show ?case
    by (auto split: sum.splits dest: p2p_apply_peers_ok)
qed

lemma set_all_one_per_id: "set_all key ws m = Inr m' \<Longrightarrow> one_per_id m \<Longrightarrow> one_per_id m'"
  by (drule set_all_upserts) (simp add: one_per_id_upserts)

lemma one_per_id_Nil: "one_per_id []"
  by (simp add: one_per_id_def)

lemma fetch_collection_one_per_id: "fetch_collection coll key r = Inr m \<Longrightarrow> one_per_id m"
  by (auto simp: fetch_collection_def
           split: fetch_result.splits option.splits if_splits sum.splits json.splits
           dest!: set_all_one_per_id[OF _ one_per_id_Nil])

lemma update_workload_one_per_id: "one_per_id m \<Longrightarrow> one_per_id (update_workload i f m)"
  by (simp add: update_workload_def one_per_id_set split: option.splits)

lemma orch_handleMessage_stores_ok:
  assumes "stores_ok s" and "orch_handleMessage ev s = Done s'"
  shows "stores_ok s'"
  using assms
  by (auto simp: orch_handleMessage_def stores_ok_def one_per_id_delete one_per_id_set
           split: if_splits sum.splits dest: set_all_one_per_id)

lemma orch_apply_stores_ok:
  assumes "stores_ok (state w)" and "orch_apply x w = Inr w'"
  shows "stores_ok (state w')"
proof (cases x)
  case (Event msg)
  with assms show ?thesis
    by (auto simp: orch_onmessage_def split: outcome.splits sum.splits if_splits
             dest: orch_handleMessage_stores_ok)
next
  case (WorkloadsFetched r)
  with assms show ?thesis
    by (auto simp: fetchWorkloads_def stores_ok_def split: sum.splits
             dest: fetch_collection_one_per_id)
next
  case (NodesFetched r)
  with assms show ?thesis
    by (auto simp: fetchNodes_def stores_ok_def split: sum.splits
             dest: fetch_collection_one_per_id)
next
  case (Created r)
  with assms show ?thesis
    by (auto simp: createWorkload_def stores_ok_def one_per_id_set
             split: sum.splits fetch_result.splits if_splits option.splits)
next
  case (Cancelled i r)
  with assms show ?thesis
    by (auto simp: cancelWorkload_def stores_ok_def update_workload_one_per_id
             split: sum.splits)
next
  case (Retried i r)
  with assms show ?thesis
    by (auto simp: retryWorkload_def stores_ok_def update_workload_one_per_id
             split: sum.splits)
qed

lemma orch_ops_stores_ok:
  "stores_ok (state w) \<Longrightarrow> orch_ops xs w = Inr w' \<Longrightarrow> stores_ok (state w')"
proof (induction xs arbitrary: w)
  case Nil
  then show ?case by simp
next
  case (Cons x xs)
  then show ?case
    by (auto split: sum.splits dest: orch_apply_stores_ok)
qed

text \<open>
  Identifiers that are arrays: two workloads of one snapshot whose \<^verbatim>\<open>id\<close> is \<^verbatim>\<open>[1]\<close> are
  two entries, as in a \<^verbatim>\<open>Map\<close>, where each array is a key of its own.
\<close>

lemma array_identifiers_are_separate:
  "orch_handleMessage
     (JObj [(''type'', JStr ''workload_list''),
            (''data'', JArr [JObj [(''id'', JArr [JNum 1])], JObj [(''id'', JArr [JNum 1])]])])
     orch_initial
   = Done (orch_initial\<lparr>workloads :=
       [(JArr [JNum 1], JObj [(''id'', JArr [JNum 1])]),
        (JArr [JNum 1], JObj [(''id'', JArr [JNum 1])])]\<rparr>)"
  by (simp add: orch_handleMessage_def js_or_def map_set_def orch_initial_def)

section \<open>The connection: consecutive failures and quiet hooks\<close>

lemma p2p_failures_state:
  assumes "connected_anew w" and "code \<noteq> 1000" and "urlAccepted opts"
    and "n < maxReconnectAttempts opts"
  shows "p2p_failures opts code (Suc n) w =
     (w\<lparr>wsRef := None, reconnectTimerRef := Some (nextTimer w + n),
        reconnectAttempts := Suc n, isConnecting := False,
        sockets := (sockets w)[the_socket w := CLOSED] @ replicate n CLOSED,
        timers := [(nextTimer w + n, times_pow2 (reconnectInterval opts) n)],
        nextTimer := nextTimer w + Suc n,
        state := (state w)\<lparr>P2PState.connected := False\<rparr>\<rparr>,
      [SetTimeout (nextTimer w + n) (times_pow2 (reconnectInterval opts) n)])"
  using assms(4)
proof (induction n)
  case 0
  with assms(1,2) show ?case
    by (auto simp: connected_anew_def p2p_step_def pending_def the_socket_def p2p_onclose_def
          schedule_reconnect_def set_ready_def Let_def split: option.splits)
next
  case (Suc n)
  then have "n < maxReconnectAttempts opts" by simp
  note IH = Suc.IH[OF this]
  show ?case
    apply (subst p2p_failures.simps(2))
    apply (simp only: IH Let_def fst_conv)
    using Suc.prems assms(2,3)
    apply (simp add: p2p_step_def pending_def the_timer_def take_timer_def p2p_connect_def
        readyState_def open_socket_def the_socket_def live_def set_ready_def p2p_onclose_def
        schedule_reconnect_def Let_def nth_append list_update_append replicate_append_same)
    done
qed

lemma orch_failures_state:
  assumes "connected_anew w" and "code \<noteq> 1000" and "urlAccepted opts"
    and "n < maxReconnectAttempts opts"
  shows "orch_failures opts code (Suc n) w =
     (w\<lparr>wsRef := None, reconnectTimerRef := Some (nextTimer w + n),
        reconnectAttempts := Suc n, isConnecting := False,
        sockets := (sockets w)[the_socket w := CLOSED] @ replicate n CLOSED,
        timers := [(nextTimer w + n, times_pow2 (reconnectInterval opts) n)],
        nextTimer := nextTimer w + Suc n,
        state := (if n = 0 then (state w)\<lparr>connected := False\<rparr>
                  else (state w)\<lparr>connected := False, loading := True, error := None\<rparr>)\<rparr>,
      [SetTimeout (nextTimer w + n) (times_pow2 (reconnectInterval opts) n)])"
  using assms(4)
proof (induction n)
  case 0
  with assms(1,2) show ?case
    by (auto simp: connected_anew_def orch_step_def pending_def the_socket_def orch_onclose_def
          schedule_reconnect_def set_ready_def Let_def split: option.splits)
next
  case (Suc n)
  then have "n < maxReconnectAttempts opts" by simp
  note IH = Suc.IH[OF this]
  show ?case
    apply (subst orch_failures.simps(2))
    apply (simp only: IH Let_def fst_conv)
    using Suc.prems assms(2,3)
    apply (simp add: orch_step_def pending_def the_timer_def take_timer_def orch_connect_def
        readyState_def open_socket_def the_socket_def live_def set_ready_def orch_onclose_def
        schedule_reconnect_def Let_def nth_append list_update_append replicate_append_same)
    done
qed

lemma p2p_step_quiet:
  assumes "timers w = []" and "all_closed w"
  shows "p2p_step opts ev w = (w, [])"
  using assms
  by (cases ev) (auto simp: p2p_step_def pending_def live_def all_closed_def list_all_length)

lemma p2p_run_quiet:
  assumes "timers w = []" and "all_closed w"
  shows "p2p_run opts evs w = (w, [])"
  using assms by (induction evs) (simp_all add: p2p_step_quiet)

lemma orch_step_quiet:
  assumes "timers w = []" and "all_closed w"
  shows "orch_step opts ev w = (w, [])"
  using assms
  by (cases ev) (auto simp: orch_step_def pending_def live_def all_closed_def list_all_length)

lemma orch_run_quiet:
  assumes "timers w = []" and "all_closed w"
  shows "orch_run opts evs w = (w, [])"
  using assms by (induction evs) (simp_all add: orch_step_quiet)

lemma disconnect_scheduled:
  assumes "reconnectTimerRef w = Some t" and "0 < t" and "timers w = [(t, d)]"
  shows "fst (disconnect w) =
           w\<lparr>timers := [], reconnectTimerRef := None, reconnectAttempts := 0,
              isConnecting := False,
              sockets := (case wsRef w of None \<Rightarrow> sockets w
                          | Some k \<Rightarrow> (sockets w)[k := closing (sockets w ! k)]),
              wsRef := None\<rparr>"
    and "snd (disconnect w) =
           ClearTimeout t # (case wsRef w of None \<Rightarrow> [] | Some k \<Rightarrow> [WsClose k 1000])"
  using assms by (auto simp: disconnect_def Let_def split: option.splits)

lemma closing_closed: "closing r = CLOSED \<longleftrightarrow> r = CLOSED"
  by (cases r) simp_all

lemma all_closed_disconnect:
  assumes "all_closed w"
  shows "all_closed (fst (disconnect w))"
proof -
  have "list_all (\<lambda>r. r = CLOSED) (xs[k := closing (xs ! k)])"
    if "list_all (\<lambda>r. r = CLOSED) xs" for xs k
    using that by (cases "k < length xs") (auto simp: list_all_length nth_list_update)
  with assms show ?thesis
    by (auto simp: disconnect_def all_closed_def Let_def split: option.splits prod.splits if_splits)
qed

lemma p2p_timers_quiet:
  assumes "timers w = []"
  shows "p2p_run opts (map TimerFired ts) w = (w, [])"
  using assms by (induction ts) (simp_all add: p2p_step_def pending_def)

lemma orch_timers_quiet:
  assumes "timers w = []"
  shows "orch_run opts (map TimerFired ts) w = (w, [])"
  using assms by (induction ts) (simp_all add: orch_step_def pending_def)

lemma connected_anew_p2p: "0 < maxReconnectAttempts opts \<Longrightarrow> urlAccepted opts \<Longrightarrow>
    connected_anew (fst (p2p_connect opts (fresh s)))"
  by (simp add: connected_anew_def p2p_connect_def fresh_def readyState_def open_socket_def
        live_def)

lemma connected_anew_orch: "0 < maxReconnectAttempts opts \<Longrightarrow> urlAccepted opts \<Longrightarrow>
    connected_anew (fst (orch_connect opts (fresh s)))"
  by (simp add: connected_anew_def orch_connect_def fresh_def readyState_def open_socket_def
        live_def)

lemma times_pow2_finite:
  assumes "k \<le> K" and "K < 1024" and "finite_double (x * 2 ^ K)"
  shows "times_pow2 x k = Num (x * 2 ^ k)"
proof -
  have "(2::real) ^ k \<le> 2 ^ K"
    using assms(1) by (simp add: power_increasing)
  then have "\<bar>x\<bar> * 2 ^ k \<le> \<bar>x\<bar> * 2 ^ K"
    by (simp add: mult_left_mono)
  then have "\<bar>x * 2 ^ k\<bar> \<le> \<bar>x * 2 ^ K\<bar>"
    by (simp add: abs_mult)
  with assms(3) have "finite_double (x * 2 ^ k)"
    by (simp add: finite_double_def)
  with assms(1,2) show ?thesis
    by (simp add: times_pow2_def)
qed

text \<open>A delay that overflows: an interval of 10 to the 308 doubles to \<^verbatim>\<open>Infinity\<close>.\<close>

lemma times_pow2_overflow: "times_pow2 (10 ^ 308) 1 = PosInfinity"
  by (simp add: times_pow2_def finite_double_def)

text \<open>
  What \<^verbatim>\<open>disconnect\<close> does achieve. When the timer that \<^verbatim>\<open>reconnectTimerRef\<close> holds is
  the only one pending, it is cleared, the counter is set to zero and \<^verbatim>\<open>close(1000)\<close>
  is called on the socket the hook holds, if it holds one; no timer is left to fire,
  and when every socket is closed no event reaches the hook again.
\<close>

lemma disconnect_cancels_held_timer:
  assumes "reconnectTimerRef w = Some t" and "0 < t" and "timers w = [(t, d)]"
    and "reconnectTimerRef v = Some u" and "0 < u" and "timers v = [(u, c)]"
  shows "timers (fst (disconnect w)) = [] \<and> reconnectTimerRef (fst (disconnect w)) = None
       \<and> reconnectAttempts (fst (disconnect w)) = 0 \<and> wsRef (fst (disconnect w)) = None
       \<and> snd (disconnect w)
           = ClearTimeout t # (case wsRef w of None \<Rightarrow> [] | Some k \<Rightarrow> [WsClose k 1000])
       \<and> p2p_run opts (map TimerFired ts) (fst (disconnect w)) = (fst (disconnect w), [])
       \<and> (all_closed w \<longrightarrow> p2p_run opts evs (fst (disconnect w)) = (fst (disconnect w), []))
       \<and> timers (fst (disconnect v)) = [] \<and> reconnectTimerRef (fst (disconnect v)) = None
       \<and> reconnectAttempts (fst (disconnect v)) = 0 \<and> wsRef (fst (disconnect v)) = None
       \<and> snd (disconnect v)
           = ClearTimeout u # (case wsRef v of None \<Rightarrow> [] | Some k \<Rightarrow> [WsClose k 1000])
       \<and> orch_run opts (map TimerFired ts) (fst (disconnect v)) = (fst (disconnect v), [])
       \<and> (all_closed v \<longrightarrow> orch_run opts evs (fst (disconnect v)) = (fst (disconnect v), []))"
proof -
  note dw = disconnect_scheduled[OF assms(1-3)]
  note dv = disconnect_scheduled[OF assms(4-6)]
  have tw: "timers (fst (disconnect w)) = []" by (simp add: dw)
  have tv: "timers (fst (disconnect v)) = []" by (simp add: dv)
  have "p2p_run opts (map TimerFired ts) (fst (disconnect w)) = (fst (disconnect w), [])"
    by (rule p2p_timers_quiet[OF tw])
  moreover have "all_closed w \<longrightarrow>
      p2p_run opts evs (fst (disconnect w)) = (fst (disconnect w), [])"
    by (simp add: p2p_run_quiet[OF tw] all_closed_disconnect)
  moreover have "orch_run opts (map TimerFired ts) (fst (disconnect v)) = (fst (disconnect v), [])"
    by (rule orch_timers_quiet[OF tv])
  moreover have "all_closed v \<longrightarrow>
      orch_run opts evs (fst (disconnect v)) = (fst (disconnect v), [])"
    by (simp add: orch_run_quiet[OF tv] all_closed_disconnect)
  moreover have "reconnectTimerRef (fst (disconnect w)) = None
       \<and> reconnectAttempts (fst (disconnect w)) = 0 \<and> wsRef (fst (disconnect w)) = None"
    by (simp add: dw)
  moreover have "reconnectTimerRef (fst (disconnect v)) = None
       \<and> reconnectAttempts (fst (disconnect v)) = 0 \<and> wsRef (fst (disconnect v)) = None"
    by (simp add: dv)
  ultimately show ?thesis
    using tw tv dw(2) dv(2) by blast
qed

section \<open>The claims\<close>

subsection \<open>Snapshots\<close>

text \<open>
  Claim C1, as the code has it. A snapshot that is pushed over the socket
  (\<^verbatim>\<open>peers_list\<close>, \<^verbatim>\<open>workload_list\<close>, \<^verbatim>\<open>node_list\<close>) is merged into the store: every
  identifier of the snapshot then holds an entity of the snapshot, and every entity
  of before whose identifier the snapshot does not have is still there. A snapshot
  that is fetched (\<^verbatim>\<open>fetchPeers\<close>, \<^verbatim>\<open>fetchWorkloads\<close>, \<^verbatim>\<open>fetchNodes\<close>) replaces the
  store: it is built from \<^verbatim>\<open>new Map()\<close>, and afterwards every entry of the store is an
  entity of the snapshot. This holds for both shapes of a response, the bare array
  and the object that wraps it under \<^verbatim>\<open>workloads\<close> or \<^verbatim>\<open>nodes\<close>. For peers the
  entities of a snapshot are those whose normalised id is truthy.
\<close>

theorem snapshot_merged_or_replaced:
  "(jprop msg ''type'' = JStr ''peers_list'' \<and> iterate (frame_peers msg) = Inr ps
      \<and> p2p_handleMessage toStr msg s = Done s'
      \<longrightarrow> merged id' (valid_peers toStr ps) (peers s) (peers s'))
 \<and> (jprop ev ''type'' = JStr ''workload_list''
      \<and> iterate (js_or (jprop ev ''data'') (JArr [])) = Inr ws
      \<and> orch_handleMessage ev t = Done t'
      \<longrightarrow> merged (\<lambda>w. jprop w ''id'') ws (workloads t) (workloads t'))
 \<and> (jprop ev ''type'' = JStr ''node_list''
      \<and> iterate (js_or (jprop ev ''data'') (JArr [])) = Inr ws
      \<and> orch_handleMessage ev t = Done t'
      \<longrightarrow> merged (\<lambda>w. jprop w ''nodeId'') ws (nodes t) (nodes t'))
 \<and> (body resp = Some data \<and> iterate data = Inr ps
      \<and> fst (fetchPeers toStr (Response resp) s) = Inr s'
      \<longrightarrow> replaced id' (valid_peers toStr ps) (peers s'))
 \<and> (body resp = Some data
      \<and> (data = JArr ws
          \<or> (\<forall>xs. data \<noteq> JArr xs)
             \<and> iterate (js_or (jprop data ''workloads'') (JArr [])) = Inr ws)
      \<and> fetchWorkloads (Response resp) t = (t', Inr m)
      \<longrightarrow> workloads t' = m \<and> replaced (\<lambda>w. jprop w ''id'') ws m)
 \<and> (body resp = Some data
      \<and> (data = JArr ws
          \<or> (\<forall>xs. data \<noteq> JArr xs)
             \<and> iterate (js_or (jprop data ''nodes'') (JArr [])) = Inr ws)
      \<and> fetchNodes (Response resp) t = (t', Inr m)
      \<longrightarrow> nodes t' = m \<and> replaced (\<lambda>w. jprop w ''nodeId'') ws m)"
proof -
  have peers_list: "merged id' (valid_peers toStr ps) (peers s) (peers s')"
    if "jprop msg ''type'' = JStr ''peers_list''" "iterate (frame_peers msg) = Inr ps"
      "p2p_handleMessage toStr msg s = Done s'"
  proof -
    from that have "peers s' = upserts id' (valid_peers toStr ps) (peers s)"
      by (cases msg) (auto simp: p2p_handleMessage_def split: sum.splits dest: set_peers_upserts)
    then show ?thesis by (simp add: merged_upserts)
  qed
  have workload_list: "merged (\<lambda>w. jprop w ''id'') ws (workloads t) (workloads t')"
    if "jprop ev ''type'' = JStr ''workload_list''"
      "iterate (js_or (jprop ev ''data'') (JArr [])) = Inr ws"
      "orch_handleMessage ev t = Done t'"
  proof -
    from that have "workloads t' = upserts (\<lambda>w. jprop w ''id'') ws (workloads t)"
      by (cases ev) (auto simp: orch_handleMessage_def split: sum.splits dest: set_all_upserts)
    then show ?thesis by (simp add: merged_upserts)
  qed
  have node_list: "merged (\<lambda>w. jprop w ''nodeId'') ws (nodes t) (nodes t')"
    if "jprop ev ''type'' = JStr ''node_list''"
      "iterate (js_or (jprop ev ''data'') (JArr [])) = Inr ws"
      "orch_handleMessage ev t = Done t'"
  proof -
    from that have "nodes t' = upserts (\<lambda>w. jprop w ''nodeId'') ws (nodes t)"
      by (cases ev) (auto simp: orch_handleMessage_def split: sum.splits dest: set_all_upserts)
    then show ?thesis by (simp add: merged_upserts)
  qed
  have fetched_peers: "replaced id' (valid_peers toStr ps) (peers s')"
    if "body resp = Some data" "iterate data = Inr ps"
      "fst (fetchPeers toStr (Response resp) s) = Inr s'"
  proof -
    from that(2) have "\<not> nullish data" by (cases data) simp_all
    with that have "peers s' = upserts id' (valid_peers toStr ps) []"
      by (auto simp: fetchPeers_def split: sum.splits dest: set_peers_upserts)
    then show ?thesis by (simp add: replaced_upserts)
  qed
  have collection: "m = upserts (\<lambda>w. jprop w key) ws []"
    if "body resp = Some data"
      "data = JArr ws
       \<or> (\<forall>xs. data \<noteq> JArr xs) \<and> iterate (js_or (jprop data coll) (JArr [])) = Inr ws"
      "fetch_collection coll key (Response resp) = Inr m" for coll key
    using that
    by (cases data)
       (auto simp: fetch_collection_def split: if_splits sum.splits dest: set_all_upserts)
  have fetched_workloads: "workloads t' = m \<and> replaced (\<lambda>w. jprop w ''id'') ws m"
    if "body resp = Some data"
      "data = JArr ws
       \<or> (\<forall>xs. data \<noteq> JArr xs)
          \<and> iterate (js_or (jprop data ''workloads'') (JArr [])) = Inr ws"
      "fetchWorkloads (Response resp) t = (t', Inr m)"
  proof -
    from that(3) have f: "fetch_collection ''workloads'' ''id'' (Response resp) = Inr m"
      and w: "workloads t' = m"
      by (auto simp: fetchWorkloads_def split: sum.splits)
    from collection[OF that(1,2) f] w show ?thesis
      by (simp add: replaced_upserts)
  qed
  have fetched_nodes: "nodes t' = m \<and> replaced (\<lambda>w. jprop w ''nodeId'') ws m"
    if "body resp = Some data"
      "data = JArr ws
       \<or> (\<forall>xs. data \<noteq> JArr xs)
          \<and> iterate (js_or (jprop data ''nodes'') (JArr [])) = Inr ws"
      "fetchNodes (Response resp) t = (t', Inr m)"
  proof -
    from that(3) have f: "fetch_collection ''nodes'' ''nodeId'' (Response resp) = Inr m"
      and w: "nodes t' = m"
      by (auto simp: fetchNodes_def split: sum.splits)
    from collection[OF that(1,2) f] w show ?thesis
      by (simp add: replaced_upserts)
  qed
  from peers_list workload_list node_list fetched_peers fetched_workloads fetched_nodes
  show ?thesis by blast
qed

theorem snapshot_merged_or_replaced_witness:
  "merged id' (valid_peers (\<lambda>v. []) [JObj [(''id'', JStr ''b''), (''name'', JStr ''B'')]])
     [(JStr ''a'', \<lparr>id' = JStr ''a'', name = JStr ''A'', reputation = JNum 0.5,
                     location = JUndefined, addresses = JArr []\<rparr>)]
     [(JStr ''a'', \<lparr>id' = JStr ''a'', name = JStr ''A'', reputation = JNum 0.5,
                     location = JUndefined, addresses = JArr []\<rparr>),
      (JStr ''b'', \<lparr>id' = JStr ''b'', name = JStr ''B'', reputation = JNum 0.5,
                     location = JUndefined, addresses = JArr []\<rparr>)]
   \<and> replaced (\<lambda>w. jprop w ''id'') [JObj [(''id'', JStr ''w2'')]]
       [(JStr ''w2'', JObj [(''id'', JStr ''w2'')])]"
proof -
  let ?a = "\<lparr>id' = JStr ''a'', name = JStr ''A'', reputation = JNum 0.5,
              location = JUndefined, addresses = JArr []\<rparr>"
  let ?b = "\<lparr>id' = JStr ''b'', name = JStr ''B'', reputation = JNum 0.5,
              location = JUndefined, addresses = JArr []\<rparr>"
  let ?msg = "JObj [(''type'', JStr ''peers_list''),
                    (''peers'', JArr [JObj [(''id'', JStr ''b''), (''name'', JStr ''B'')]])]"
  let ?data = "JObj [(''workloads'', JArr [JObj [(''id'', JStr ''w2'')]])]"
  let ?t = "orch_initial\<lparr>workloads := [(JStr ''w1'', JObj [(''id'', JStr ''w1'')])]\<rparr>"
  have 1: "jprop ?msg ''type'' = JStr ''peers_list''"
    "iterate (frame_peers ?msg) = Inr [JObj [(''id'', JStr ''b''), (''name'', JStr ''B'')]]"
    "p2p_handleMessage (\<lambda>v. []) ?msg (p2p_initial\<lparr>peers := [(JStr ''a'', ?a)]\<rparr>)
       = Done (p2p_initial\<lparr>peers := [(JStr ''a'', ?a), (JStr ''b'', ?b)]\<rparr>)"
    by (simp_all add: p2p_handleMessage_def frame_peers_def normalizePeer_def js_or_def
          js_coalesce_def map_set_def p2p_initial_def)
  have 2: "body \<lparr>ok = True, status = 200, body = Some ?data\<rparr> = Some ?data"
    "(\<forall>xs. ?data \<noteq> JArr xs)
       \<and> iterate (js_or (jprop ?data ''workloads'') (JArr [])) = Inr [JObj [(''id'', JStr ''w2'')]]"
    "fetchWorkloads (Response \<lparr>ok = True, status = 200, body = Some ?data\<rparr>) ?t
       = (orch_initial\<lparr>workloads := [(JStr ''w2'', JObj [(''id'', JStr ''w2'')])],
                        error := None\<rparr>, Inr [(JStr ''w2'', JObj [(''id'', JStr ''w2'')])])"
    by (simp_all add: fetchWorkloads_def fetch_collection_def js_or_def map_set_def
          orch_initial_def)
  from 1 2 show ?thesis
    using snapshot_merged_or_replaced
      [where msg = ?msg and ps = "[JObj [(''id'', JStr ''b''), (''name'', JStr ''B'')]]"
         and toStr = "\<lambda>v. []"
         and s = "p2p_initial\<lparr>peers := [(JStr ''a'', ?a)]\<rparr>"
         and s' = "p2p_initial\<lparr>peers := [(JStr ''a'', ?a), (JStr ''b'', ?b)]\<rparr>"
         and resp = "\<lparr>ok = True, status = 200, body = Some ?data\<rparr>"
         and data = ?data and ws = "[JObj [(''id'', JStr ''w2'')]]" and t = ?t
         and t' = "orch_initial\<lparr>workloads := [(JStr ''w2'', JObj [(''id'', JStr ''w2'')])],
                                error := None\<rparr>"
         and m = "[(JStr ''w2'', JObj [(''id'', JStr ''w2'')])]"]
    by (simp add: p2p_initial_def)
qed

text \<open>
  The claim as it stands fails on a fetched snapshot: with workload \<open>w1\<close> in the
  store, a successful \<^verbatim>\<open>fetchWorkloads\<close> whose response is the empty array leaves the
  store empty, and \<^verbatim>\<open>fetchPeers\<close> does the same to a peer.
\<close>

theorem fetched_snapshot_removes_counterexample:
  "map_get (workloads (orch_initial\<lparr>workloads := [(JStr ''w1'', JObj [(''id'', JStr ''w1'')])]\<rparr>))
      (JStr ''w1'') = Some (JObj [(''id'', JStr ''w1'')])
   \<and> fetchWorkloads (Response \<lparr>ok = True, status = 200, body = Some (JArr [])\<rparr>)
       (orch_initial\<lparr>workloads := [(JStr ''w1'', JObj [(''id'', JStr ''w1'')])]\<rparr>)
     = (orch_initial\<lparr>workloads := [], error := None\<rparr>, Inr [])
   \<and> map_get (workloads (fst (fetchWorkloads
         (Response \<lparr>ok = True, status = 200, body = Some (JArr [])\<rparr>)
         (orch_initial\<lparr>workloads := [(JStr ''w1'', JObj [(''id'', JStr ''w1'')])]\<rparr>))))
       (JStr ''w1'') = None
   \<and> fetchPeers (\<lambda>v. []) (Response \<lparr>ok = True, status = 200, body = Some (JArr [])\<rparr>)
       (p2p_initial\<lparr>peers := [(JStr ''a'', \<lparr>id' = JStr ''a'', name = JStr ''A'',
            reputation = JNum 0.5, location = JUndefined, addresses = JArr []\<rparr>)]\<rparr>)
     = (Inr (p2p_initial\<lparr>peers := []\<rparr>), Inr ())"
  by (simp add: fetchWorkloads_def fetch_collection_def orch_initial_def map_get_def
        fetchPeers_def p2p_initial_def)

subsection \<open>Commands\<close>

text \<open>
  Claim C2, as the code has it. \<^verbatim>\<open>cancelWorkload\<close> and \<^verbatim>\<open>retryWorkload\<close> change
  nothing before their request has settled. When the request fails (the fetch rejects
  or the status is not a success), the command stores the message of the error in the
  state, throws the error to its caller, sends nothing and leaves the workloads as
  they were. When it succeeds, a workload stored under the identifier gets status
  \<^verbatim>\<open>cancelled\<close>, respectively status \<^verbatim>\<open>pending\<close> and progress 0, and the command
  returns normally.
\<close>

theorem command_updates_after_response:
  "fst (command_start verb workloadId w) = w
   \<and> ((\<exists>e. command_response verb r = Inl e)
        \<longleftrightarrow> (case r of Rejected \<Rightarrow> True | Response resp \<Rightarrow> \<not> ok resp))
   \<and> (\<forall>e. command_response ''cancel'' r = Inl e \<longrightarrow>
         cancelWorkload workloadId r w
           = (w\<lparr>state := (state w)\<lparr>error := Some (message e)\<rparr>\<rparr>, [], Inl e))
   \<and> (\<forall>e. command_response ''retry'' r = Inl e \<longrightarrow>
         retryWorkload workloadId r w
           = (w\<lparr>state := (state w)\<lparr>error := Some (message e)\<rparr>\<rparr>, [], Inl e))
   \<and> (\<forall>wl. command_response ''cancel'' r = Inr ()
           \<and> map_get (workloads (state w)) (JStr workloadId) = Some wl \<and> truthy wl \<longrightarrow>
         (\<exists>wl'. map_get (workloads (state (fst (cancelWorkload workloadId r w))))
                   (JStr workloadId) = Some wl'
            \<and> jprop wl' ''status'' = JStr ''cancelled'')
         \<and> snd (snd (cancelWorkload workloadId r w)) = Inr ())
   \<and> (\<forall>wl. command_response ''retry'' r = Inr ()
           \<and> map_get (workloads (state w)) (JStr workloadId) = Some wl \<and> truthy wl \<longrightarrow>
         (\<exists>wl'. map_get (workloads (state (fst (retryWorkload workloadId r w))))
                   (JStr workloadId) = Some wl'
            \<and> jprop wl' ''status'' = JStr ''pending'' \<and> jprop wl' ''progress'' = JNum 0)
         \<and> snd (snd (retryWorkload workloadId r w)) = Inr ())"
proof -
  have "(\<exists>e. command_response verb r = Inl e)
        \<longleftrightarrow> (case r of Rejected \<Rightarrow> True | Response resp \<Rightarrow> \<not> ok resp)"
    by (simp add: command_response_def split: fetch_result.splits)
  moreover have "jprop (spread_with (spread_with wl ''status'' (JStr ''pending''))
                          ''progress'' (JNum 0)) ''status'' = JStr ''pending''" for wl
    by (simp add: spread_with_def update_conv')
  ultimately show ?thesis
    by (auto simp: command_start_def cancelWorkload_def retryWorkload_def update_workload_def
          map_get_set jprop_spread_same split: sum.splits)
qed

theorem command_updates_after_response_witness:
  "cancelWorkload ''w1'' (Response \<lparr>ok = False, status = 500, body = None\<rparr>)
      (fresh (orch_initial\<lparr>workloads :=
         [(JStr ''w1'', JObj [(''id'', JStr ''w1''), (''status'', JStr ''running'')])]\<rparr>))
    = (fresh (orch_initial\<lparr>workloads :=
         [(JStr ''w1'', JObj [(''id'', JStr ''w1''), (''status'', JStr ''running'')])],
         error := Some (Literal ''Failed to cancel workload: 500'')\<rparr>), [],
       Inl (Error ''Failed to cancel workload: 500''))
   \<and> snd (snd (retryWorkload ''w1'' (Response \<lparr>ok = True, status = 200, body = None\<rparr>)
      (fresh (orch_initial\<lparr>workloads :=
         [(JStr ''w1'', JObj [(''id'', JStr ''w1''), (''status'', JStr ''failed'')])]\<rparr>)))) = Inr ()"
  using command_updates_after_response
    [where r = "Response \<lparr>ok = False, status = 500, body = None\<rparr>"
       and workloadId = "''w1''" and verb = "''cancel''"
       and w = "fresh (orch_initial\<lparr>workloads :=
         [(JStr ''w1'', JObj [(''id'', JStr ''w1''), (''status'', JStr ''running'')])]\<rparr>)"]
    command_updates_after_response
    [where r = "Response \<lparr>ok = True, status = 200, body = None\<rparr>"
       and workloadId = "''w1''" and verb = "''retry''"
       and w = "fresh (orch_initial\<lparr>workloads :=
         [(JStr ''w1'', JObj [(''id'', JStr ''w1''), (''status'', JStr ''failed'')])]\<rparr>)"]
  by (simp add: command_response_def fresh_def orch_initial_def map_get_def
        string_of_nat.simps)

text \<open>
  The claim as it stands fails: with \<open>w1\<close> running, the store is the same after the
  request has been issued, and when the request then fails with status 500 the
  workload is still running, not cancelled; the error is thrown.
\<close>

theorem cancel_not_optimistic_counterexample:
  "workloads (state (fst (command_start ''cancel'' ''w1''
      (fresh (orch_initial\<lparr>workloads :=
         [(JStr ''w1'', JObj [(''id'', JStr ''w1''), (''status'', JStr ''running'')])]\<rparr>)))))
     = [(JStr ''w1'', JObj [(''id'', JStr ''w1''), (''status'', JStr ''running'')])]
   \<and> workloads (state (fst (cancelWorkload ''w1''
        (Response \<lparr>ok = False, status = 500, body = None\<rparr>)
        (fresh (orch_initial\<lparr>workloads :=
           [(JStr ''w1'', JObj [(''id'', JStr ''w1''), (''status'', JStr ''running'')])]\<rparr>)))))
     = [(JStr ''w1'', JObj [(''id'', JStr ''w1''), (''status'', JStr ''running'')])]
   \<and> snd (snd (cancelWorkload ''w1''
        (Response \<lparr>ok = False, status = 500, body = None\<rparr>)
        (fresh (orch_initial\<lparr>workloads :=
           [(JStr ''w1'', JObj [(''id'', JStr ''w1''), (''status'', JStr ''running'')])]\<rparr>))))
     = Inl (Error ''Failed to cancel workload: 500'')"
  by (simp add: command_start_def cancelWorkload_def command_response_def fresh_def
        orch_initial_def string_of_nat.simps)

subsection \<open>Chat\<close>

text \<open>
  Claim C3, as the code has it. \<^verbatim>\<open>sendChat\<close> on a socket that is not open sends
  nothing and appends nothing: it warns and returns, the message log is as before. On
  an open socket it sends one \<^verbatim>\<open>send_chat\<close> frame and appends its own message, whose
  sender is the local peer id (\<^verbatim>\<open>unknown\<close> when there is none), dropping all but the
  last 99 messages of before.
\<close>

theorem sendChat_only_when_open:
  "(readyState w \<noteq> Some OPEN \<longrightarrow>
      sendChat content to now w = (w, [ConsoleWarn ''WebSocket not open! State:'']))
   \<and> (readyState w = Some OPEN \<longrightarrow>
        (\<exists>k m. wsRef w = Some k
          \<and> snd (sendChat content to now w)
              = [WsSend k (JObj [(''type'', JStr ''send_chat''), (''content'', JStr content),
                                 (''to'', case to of None \<Rightarrow> JUndefined | Some t \<Rightarrow> JStr t)])]
          \<and> messages (state (fst (sendChat content to now w)))
              = push_message (messages (state w)) m
          \<and> jprop m ''content'' = JStr content
          \<and> jprop m ''from''
              = JStr (case localPeerId (state w) of
                        None \<Rightarrow> ''unknown''
                      | Some l \<Rightarrow> if l = [] then ''unknown'' else l)))"
  by (auto simp: sendChat_def readyState_def Let_def
           split: option.splits ready_state.splits if_splits)

theorem sendChat_only_when_open_witness:
  "sendChat ''hi'' None 5 (fresh p2p_initial)
     = (fresh p2p_initial, [ConsoleWarn ''WebSocket not open! State:''])"
  using sendChat_only_when_open [of "fresh p2p_initial" "''hi''" None 5]
  by (simp add: readyState_def fresh_def)

text \<open>
  The claim as it stands fails: a chat sent on the hook as it is mounted, with no
  socket, leaves the message log empty; no echo is appended.
\<close>

theorem sendChat_disconnected_counterexample:
  "readyState (fresh p2p_initial) = None
   \<and> messages (state (fresh p2p_initial)) = []
   \<and> messages (state (fst (sendChat ''hi'' None 5 (fresh p2p_initial)))) = []
   \<and> snd (sendChat ''hi'' None 5 (fresh p2p_initial))
       = [ConsoleWarn ''WebSocket not open! State:'']"
  by (simp add: sendChat_def fresh_def readyState_def p2p_initial_def)

subsection \<open>Reconnection\<close>

text \<open>
  Claim C4. Let a hook have just connected, with a URL the browser accepts, and let
  its socket close abnormally as many times in a row as \<^verbatim>\<open>maxReconnectAttempts\<close>
  says (at least once), each close but the last followed by the reconnection it
  scheduled. Then \<^verbatim>\<open>connect\<close>, called directly or by
  the timer of the last close, opens no socket. useP2P reports it with the warning
  that the maximum is reached; useOrchestrator with the same warning and by setting
  \<^verbatim>\<open>error\<close> to the message that the connection failed, with \<^verbatim>\<open>connected\<close> and
  \<^verbatim>\<open>loading\<close> false. And whatever the state, \<^verbatim>\<open>connect\<close> opens no socket once the
  counter has reached the maximum.
\<close>

theorem connect_refused_when_exhausted:
  assumes "code \<noteq> 1000" and "urlAccepted opts" and "0 < maxReconnectAttempts opts"
    and "connected_anew w" and "connected_anew v"
    and "w' = fst (p2p_failures opts code (maxReconnectAttempts opts) w)"
    and "v' = fst (orch_failures opts code (maxReconnectAttempts opts) v)"
  shows "p2p_connect opts w' =
           (w', [ConsoleWarn (''P2P: Max reconnect attempts (''
                   @ string_of_nat (maxReconnectAttempts opts)
                   @ '') reached. Stopping reconnection.'')])
       \<and> opened (snd (p2p_step opts (TimerFired (the_timer w')) w')) = []
       \<and> orch_connect opts v' =
           (v'\<lparr>state := (state v')\<lparr>connected := False, loading := False,
                   error := Some (Literal (''Connection failed after ''
                                  @ string_of_nat (maxReconnectAttempts opts)
                                  @ '' attempts. Server may be unavailable.''))\<rparr>\<rparr>,
            [ConsoleWarn (''Orchestrator: Max reconnect attempts (''
                   @ string_of_nat (maxReconnectAttempts opts)
                   @ '') reached. Stopping reconnection.'')])
       \<and> opened (snd (orch_step opts (TimerFired (the_timer v')) v')) = []
       \<and> (maxReconnectAttempts opts \<le> reconnectAttempts x
            \<longrightarrow> opened (snd (p2p_connect opts x)) = [])
       \<and> (maxReconnectAttempts opts \<le> reconnectAttempts y
            \<longrightarrow> opened (snd (orch_connect opts y)) = [])"
proof -
  from assms(3) obtain n where n: "maxReconnectAttempts opts = Suc n"
    by (cases "maxReconnectAttempts opts") simp_all
  have w': "wsRef w' = None \<and> \<not> isConnecting w' \<and> reconnectAttempts w' = Suc n
      \<and> timers w' = [(the_timer w', times_pow2 (reconnectInterval opts) n)]"
    using assms(6) p2p_failures_state[OF assms(4,1,2), of n] n
    by (simp add: the_timer_def)
  have v': "wsRef v' = None \<and> \<not> isConnecting v' \<and> reconnectAttempts v' = Suc n
      \<and> timers v' = [(the_timer v', times_pow2 (reconnectInterval opts) n)]"
    using assms(7) orch_failures_state[OF assms(5,1,2), of n] n
    by (simp add: the_timer_def)
  have 1: "p2p_connect opts w' =
           (w', [ConsoleWarn (''P2P: Max reconnect attempts (''
                   @ string_of_nat (maxReconnectAttempts opts)
                   @ '') reached. Stopping reconnection.'')])"
    using w' n by (simp add: p2p_connect_def readyState_def)
  have 2: "opened (snd (p2p_step opts (TimerFired (the_timer w')) w')) = []"
    using w' n
    by (simp add: p2p_step_def pending_def take_timer_def p2p_connect_def readyState_def)
  have 3: "orch_connect opts v' =
           (v'\<lparr>state := (state v')\<lparr>connected := False, loading := False,
                   error := Some (Literal (''Connection failed after ''
                                  @ string_of_nat (maxReconnectAttempts opts)
                                  @ '' attempts. Server may be unavailable.''))\<rparr>\<rparr>,
            [ConsoleWarn (''Orchestrator: Max reconnect attempts (''
                   @ string_of_nat (maxReconnectAttempts opts)
                   @ '') reached. Stopping reconnection.'')])"
    using v' n by (simp add: orch_connect_def readyState_def)
  have 4: "opened (snd (orch_step opts (TimerFired (the_timer v')) v')) = []"
    using v' n
    by (simp add: orch_step_def pending_def take_timer_def orch_connect_def readyState_def)
  have 5: "maxReconnectAttempts opts \<le> reconnectAttempts x
            \<longrightarrow> opened (snd (p2p_connect opts x)) = []"
    by (simp add: p2p_connect_def)
  have 6: "maxReconnectAttempts opts \<le> reconnectAttempts y
            \<longrightarrow> opened (snd (orch_connect opts y)) = []"
    by (simp add: orch_connect_def)
  from 1 2 3 4 5 6 show ?thesis by blast
qed

theorem connect_refused_when_exhausted_witness:
  "snd (p2p_connect default_options
      (fst (p2p_failures default_options 1006 5
         (fst (p2p_connect default_options (fresh p2p_initial))))))
    = [ConsoleWarn ''P2P: Max reconnect attempts (5) reached. Stopping reconnection.'']
   \<and> error (state (fst (orch_connect default_options
      (fst (orch_failures default_options 1006 5
         (fst (orch_connect default_options (fresh orch_initial))))))))
    = Some (Literal ''Connection failed after 5 attempts. Server may be unavailable.'')"
proof -
  have o: "(1006::nat) \<noteq> 1000" "urlAccepted default_options"
    "0 < maxReconnectAttempts default_options"
    by (simp_all add: default_options_def)
  have m: "maxReconnectAttempts default_options = 5"
    by (simp add: default_options_def)
  show ?thesis
    using connect_refused_when_exhausted
      [OF o connected_anew_p2p [OF o(3,2)] connected_anew_orch [OF o(3,2)] refl refl,
       of p2p_initial orch_initial]
    by (simp add: m string_of_nat.simps)
qed

text \<open>
  Claim C5. Let a hook have just connected, with a URL the browser accepts, and let
  its socket close abnormally \<open>k\<close> times in a row, \<open>k\<close> from 1 to
  \<^verbatim>\<open>maxReconnectAttempts\<close>. Let the longest delay, \<^verbatim>\<open>reconnectInterval\<close> times 2 to the
  power \<^verbatim>\<open>maxReconnectAttempts\<close> - 1, be a finite double (the ceiling being at most
  1024, the interval times that power below 2 to the 1024). Then the \<open>k\<close>-th close
  sets the counter to \<open>k\<close> and schedules \<^verbatim>\<open>connect\<close> after \<^verbatim>\<open>reconnectInterval\<close>
  times 2 to the power \<open>k - 1\<close>; that timer is then the only one pending. Every open
  of a socket sets the counter to zero.
\<close>

theorem backoff_delay_doubles:
  assumes "code \<noteq> 1000" and "urlAccepted opts"
    and "connected_anew w" and "connected_anew v"
    and "1 \<le> k" and "k \<le> maxReconnectAttempts opts"
    and "maxReconnectAttempts opts \<le> 1024"
    and "finite_double (reconnectInterval opts * 2 ^ (maxReconnectAttempts opts - 1))"
  shows "snd (p2p_failures opts code k w)
           = [SetTimeout (nextTimer w + (k - 1)) (Num (reconnectInterval opts * 2 ^ (k - 1)))]
       \<and> timers (fst (p2p_failures opts code k w))
           = [(nextTimer w + (k - 1), Num (reconnectInterval opts * 2 ^ (k - 1)))]
       \<and> reconnectAttempts (fst (p2p_failures opts code k w)) = k
       \<and> snd (orch_failures opts code k v)
           = [SetTimeout (nextTimer v + (k - 1)) (Num (reconnectInterval opts * 2 ^ (k - 1)))]
       \<and> timers (fst (orch_failures opts code k v))
           = [(nextTimer v + (k - 1), Num (reconnectInterval opts * 2 ^ (k - 1)))]
       \<and> reconnectAttempts (fst (orch_failures opts code k v)) = k
       \<and> reconnectAttempts (fst (p2p_onopen j x)) = 0
       \<and> reconnectAttempts (fst (orch_onopen j y)) = 0"
proof -
  from assms(5) obtain n where k: "k = Suc n"
    by (cases k) simp_all
  with assms(6) have n: "n < maxReconnectAttempts opts" by simp
  with assms(7) have "n \<le> maxReconnectAttempts opts - 1" "maxReconnectAttempts opts - 1 < 1024"
    by simp_all
  from times_pow2_finite[OF this assms(8)]
  have d: "times_pow2 (reconnectInterval opts) n = Num (reconnectInterval opts * 2 ^ n)" .
  show ?thesis
    unfolding k
    by (simp add: p2p_failures_state[OF assms(3,1,2) n] orch_failures_state[OF assms(4,1,2) n]
          p2p_onopen_def orch_onopen_def d del: p2p_failures.simps orch_failures.simps)
qed

theorem backoff_delay_doubles_witness:
  "snd (p2p_failures default_options 1006 3
          (fst (p2p_connect default_options (fresh p2p_initial))))
     = [SetTimeout 3 (Num 12000)]
   \<and> snd (orch_failures default_options 1006 5
          (fst (orch_connect default_options (fresh orch_initial))))
     = [SetTimeout 5 (Num 48000)]"
proof -
  have o: "(1006::nat) \<noteq> 1000" "urlAccepted default_options"
    "0 < maxReconnectAttempts default_options"
    by (simp_all add: default_options_def)
  have a: "nextTimer (fst (p2p_connect default_options (fresh p2p_initial))) = 1"
    by (simp add: p2p_connect_def default_options_def fresh_def readyState_def open_socket_def)
  have b: "nextTimer (fst (orch_connect default_options (fresh orch_initial))) = 1"
    by (simp add: orch_connect_def default_options_def fresh_def readyState_def open_socket_def)
  have i: "reconnectInterval default_options = 3000"
    by (simp add: default_options_def)
  have f: "maxReconnectAttempts default_options \<le> 1024"
    "finite_double (reconnectInterval default_options
       * 2 ^ (maxReconnectAttempts default_options - 1))"
    by (simp_all add: default_options_def finite_double_def)
  have "(1::nat) \<le> 3" "(3::nat) \<le> maxReconnectAttempts default_options"
    "(1::nat) \<le> 5" "(5::nat) \<le> maxReconnectAttempts default_options"
    by (simp_all add: default_options_def)
  then show ?thesis
    using backoff_delay_doubles
        [OF o(1,2) connected_anew_p2p [OF o(3,2)] connected_anew_orch [OF o(3,2)] _ _ f,
         of 3 p2p_initial orch_initial]
      backoff_delay_doubles
        [OF o(1,2) connected_anew_p2p [OF o(3,2)] connected_anew_orch [OF o(3,2)] _ _ f,
         of 5 p2p_initial orch_initial]
    by (simp add: a b i)
qed

text \<open>
  Claim C6, which the code does not keep. \<^verbatim>\<open>disconnect\<close> clears the one timer whose
  handle \<^verbatim>\<open>reconnectTimerRef\<close> holds, and nothing marks the hook as disconnected. Three
  traces with the options of the hooks, each with a connection attempt after
  \<^verbatim>\<open>disconnect\<close>:
  \<^item> useOrchestrator: the socket closes abnormally (timer 1 scheduled), \<^verbatim>\<open>connect\<close> is
    called and its socket closes abnormally too (timer 2 scheduled, its handle replaces
    that of timer 1). \<^verbatim>\<open>disconnect\<close> clears timer 2 only; timer 1 fires and \<^verbatim>\<open>connect\<close>
    opens socket 2.
  \<^item> useOrchestrator: the socket closes abnormally (timer 1 scheduled) and \<^verbatim>\<open>connect\<close>
    is called. \<^verbatim>\<open>disconnect\<close> clears timer 1 and calls \<^verbatim>\<open>close(1000)\<close> on the socket
    that is still connecting; the browser closes such a socket with code 1006, and
    \<^verbatim>\<open>onclose\<close> schedules timer 2, which fires and opens socket 2.
  \<^item> useP2P: \<^verbatim>\<open>resetConnection\<close> schedules \<^verbatim>\<open>connect\<close> with a timer whose handle it does
    not keep. \<^verbatim>\<open>disconnect\<close> within the 100 ms clears nothing; the timer fires and
    \<^verbatim>\<open>connect\<close> opens socket 1.
\<close>

theorem connect_after_disconnect:
  "timers (fst (orch_trace default_options
      [Called Connect, Delivered (SockClose 0 1006),
       Called Connect, Delivered (SockClose 1 1006)] (fresh orch_initial)))
     = [(1, Num 3000), (2, Num 6000)]
   \<and> snd (orch_trace default_options
      [Called Connect, Delivered (SockClose 0 1006),
       Called Connect, Delivered (SockClose 1 1006),
       Called Disconnect, Delivered (TimerFired 1)] (fresh orch_initial))
     = [NewWebSocket 0, SetTimeout 1 (Num 3000), NewWebSocket 1, SetTimeout 2 (Num 6000),
        ClearTimeout 2, NewWebSocket 2]
   \<and> snd (orch_trace default_options
      [Called Connect, Delivered (SockClose 0 1006), Called Connect,
       Called Disconnect, Delivered (SockClose 1 1006), Delivered (TimerFired 2)]
      (fresh orch_initial))
     = [NewWebSocket 0, SetTimeout 1 (Num 3000), NewWebSocket 1,
        ClearTimeout 1, WsClose 1 1000, SetTimeout 2 (Num 3000), NewWebSocket 2]
   \<and> snd (p2p_trace default_options
      [Called Connect, Called ResetConnection, Called Disconnect, Delivered (TimerFired 1)]
      (fresh p2p_initial))
     = [NewWebSocket 0, WsClose 0 1000, SetTimeout 1 (Num 100), NewWebSocket 1]"
  by (simp add: orch_act_def p2p_act_def orch_connect_def p2p_connect_def orch_step_def
        p2p_step_def orch_onclose_def disconnect_def resetConnection_def schedule_reconnect_def
        times_pow2_def finite_double_def default_options_def fresh_def readyState_def
        open_socket_def live_def pending_def take_timer_def set_ready_def Let_def)

subsection \<open>Frames without an identifier\<close>

text \<open>
  Claim C7, as the code has it. On the peer channel (useP2P.ts) a \<^verbatim>\<open>peer_joined\<close> or
  \<^verbatim>\<open>peer_left\<close> frame with no identifier, neither the flat \<^verbatim>\<open>peer_id\<close> nor
  \<^verbatim>\<open>data.peer_id\<close> being truthy, is dropped: the handler throws nothing and the state
  after it, the peers store with it, is the state before; and the peers of a snapshot
  that have neither \<^verbatim>\<open>id\<close> nor \<^verbatim>\<open>peer_id\<close> are skipped. On the orchestrator channel
  (useOrchestrator.ts) no identifier is looked for: the entity of a \<^verbatim>\<open>workload_created\<close>,
  \<^verbatim>\<open>workload_updated\<close>, \<^verbatim>\<open>workload_completed\<close>, \<^verbatim>\<open>workload_failed\<close>, \<^verbatim>\<open>node_status\<close> or
  \<^verbatim>\<open>node_joined\<close> frame is stored under whatever its \<^verbatim>\<open>id\<close>, respectively \<^verbatim>\<open>nodeId\<close>,
  is, \<^verbatim>\<open>undefined\<close> when it has none.
\<close>

theorem frame_without_identifier_dropped:
  assumes "jprop msg ''type'' = JStr ''peer_joined'' \<or> jprop msg ''type'' = JStr ''peer_left''"
    and "\<not> truthy (jprop msg ''peer_id'')"
    and "\<not> truthy (jprop (jprop msg ''data'') ''peer_id'')"
    and "\<forall>p \<in> set ps. \<not> nullish p \<and> \<not> truthy (jprop p ''id'') \<and> \<not> truthy (jprop p ''peer_id'')"
    and "jprop ev ''type'' \<in> {JStr ''workload_created'', JStr ''workload_updated'',
                              JStr ''workload_completed'', JStr ''workload_failed''}"
    and "jprop ev' ''type'' \<in> {JStr ''node_status'', JStr ''node_joined''}"
    and "\<not> nullish (jprop ev ''data'')" and "\<not> nullish (jprop ev' ''data'')"
  shows "p2p_handleMessage toStr msg s = Done s \<and> p2p_onmessage toStr msg s = Inr s
       \<and> set_peers toStr ps m = Inr m
       \<and> orch_handleMessage ev t
           = Done (t\<lparr>workloads := map_set (jprop (jprop ev ''data'') ''id'') (jprop ev ''data'')
                                     (workloads t)\<rparr>)
       \<and> orch_handleMessage ev' t
           = Done (t\<lparr>nodes := map_set (jprop (jprop ev' ''data'') ''nodeId'') (jprop ev' ''data'')
                                 (nodes t)\<rparr>)"
proof -
  from assms(1-3) have 1: "p2p_handleMessage toStr msg s = Done s"
    by (cases msg) (auto simp: p2p_handleMessage_def js_or_def Let_def)
  from assms(4) have 2: "set_peers toStr ps m = Inr m"
    by (induction ps) (auto simp: normalizePeer_def js_or_def Let_def)
  from assms(5,7) have 3: "orch_handleMessage ev t
           = Done (t\<lparr>workloads := map_set (jprop (jprop ev ''data'') ''id'') (jprop ev ''data'')
                                     (workloads t)\<rparr>)"
    by (cases ev) (auto simp: orch_handleMessage_def)
  from assms(6,8) have 4: "orch_handleMessage ev' t
           = Done (t\<lparr>nodes := map_set (jprop (jprop ev' ''data'') ''nodeId'') (jprop ev' ''data'')
                                 (nodes t)\<rparr>)"
    by (cases ev') (auto simp: orch_handleMessage_def)
  from 1 2 3 4 show ?thesis
    by (simp add: p2p_onmessage_def)
qed

theorem frame_without_identifier_dropped_witness:
  "p2p_handleMessage (\<lambda>v. [])
      (JObj [(''type'', JStr ''peer_left''), (''data'', JObj [(''name'', JStr ''x'')])])
      (p2p_initial\<lparr>peers := [(JStr ''a'', \<lparr>id' = JStr ''a'', name = JStr ''A'',
           reputation = JNum 0.5, location = JUndefined, addresses = JArr []\<rparr>)]\<rparr>)
    = Done (p2p_initial\<lparr>peers := [(JStr ''a'', \<lparr>id' = JStr ''a'', name = JStr ''A'',
           reputation = JNum 0.5, location = JUndefined, addresses = JArr []\<rparr>)]\<rparr>)
   \<and> set_peers (\<lambda>v. []) [JObj [(''display_name'', JStr ''Alice'')], JStr ''x''] [] = Inr []
   \<and> orch_handleMessage
        (JObj [(''type'', JStr ''workload_updated''), (''data'', JObj [(''status'', JStr ''running'')])])
        orch_initial
      = Done (orch_initial\<lparr>workloads := [(JUndefined, JObj [(''status'', JStr ''running'')])]\<rparr>)"
  using frame_without_identifier_dropped
    [of "JObj [(''type'', JStr ''peer_left''), (''data'', JObj [(''name'', JStr ''x'')])]"
        "[JObj [(''display_name'', JStr ''Alice'')], JStr ''x'']"
        "JObj [(''type'', JStr ''workload_updated''),
               (''data'', JObj [(''status'', JStr ''running'')])]"
        "JObj [(''type'', JStr ''node_status''), (''data'', JObj [])]"
        "\<lambda>v. []"
        "p2p_initial\<lparr>peers := [(JStr ''a'', \<lparr>id' = JStr ''a'', name = JStr ''A'',
           reputation = JNum 0.5, location = JUndefined, addresses = JArr []\<rparr>)]\<rparr>"
        "[]" orch_initial]
  by (simp add: map_set_def orch_initial_def)

text \<open>
  The claim as it stands fails on the orchestrator channel: a \<^verbatim>\<open>node_joined\<close> frame
  whose entity has no \<^verbatim>\<open>nodeId\<close> is not dropped; the nodes store gets an entry under
  \<^verbatim>\<open>undefined\<close>.
\<close>

theorem frame_without_identifier_stored_counterexample:
  "nodes orch_initial = []
   \<and> orch_handleMessage
       (JObj [(''type'', JStr ''node_joined''), (''data'', JObj [(''name'', JStr ''n1'')])])
       orch_initial
     = Done (orch_initial\<lparr>nodes := [(JUndefined, JObj [(''name'', JStr ''n1'')])]\<rparr>)"
  by (simp add: orch_handleMessage_def orch_initial_def map_set_def)

subsection \<open>Identifiers in the stores\<close>

text \<open>
  Claim C8, as the code has it. After any sequence of frames, fetches and commands, no
  store holds two entries under one identifier that is a string, a number, a boolean,
  \<^verbatim>\<open>null\<close> or \<^verbatim>\<open>undefined\<close>; an identifier that is an array or an object is a key of
  its own in a \<^verbatim>\<open>Map\<close>. The peers store holds only entries whose identifier is truthy
  (a string that is not empty) and is the id of the entity. The workloads and nodes
  stores take the identifier as it comes: nothing in useOrchestrator.ts tests it.
\<close>

theorem stores_keep_one_entry_per_id:
  "(peers_ok (peers s) \<and> p2p_ops toStr xs s = Inr s' \<longrightarrow> peers_ok (peers s'))
   \<and> (stores_ok (state w) \<and> orch_ops ys w = Inr w' \<longrightarrow> stores_ok (state w'))
   \<and> peers_ok (peers p2p_initial) \<and> stores_ok orch_initial"
proof -
  have "peers_ok (peers p2p_initial)" "stores_ok orch_initial"
    by (simp_all add: peers_ok_def stores_ok_def one_per_id_def p2p_initial_def orch_initial_def)
  then show ?thesis
    by (blast intro: p2p_ops_peers_ok orch_ops_stores_ok)
qed

theorem stores_keep_one_entry_per_id_witness:
  "peers_ok [(JStr ''a'', \<lparr>id' = JStr ''a'', name = JStr ''Peer-a'', reputation = JNum 0.5,
                           location = JUndefined, addresses = JArr []\<rparr>)]
   \<and> p2p_ops (\<lambda>v. [])
      [Frame (JObj [(''type'', JStr ''peer_joined''), (''peer_id'', JStr ''a'')]),
       Frame (JObj [(''type'', JStr ''peer_joined''), (''peer_id'', JStr '''')]),
       Frame (JObj [(''type'', JStr ''peer_joined''), (''peer_id'', JStr ''a'')])] p2p_initial
      = Inr (p2p_initial\<lparr>peers :=
          [(JStr ''a'', \<lparr>id' = JStr ''a'', name = JStr ''Peer-a'', reputation = JNum 0.5,
                          location = JUndefined, addresses = JArr []\<rparr>)]\<rparr>)
   \<and> stores_ok (state (fresh (orch_initial\<lparr>workloads :=
        [(JStr ''w1'', JObj [(''id'', JStr ''w1''), (''status'', JStr ''cancelled'')])]\<rparr>)))
   \<and> orch_ops
        [Event (JObj [(''type'', JStr ''workload_created''),
                      (''data'', JObj [(''id'', JStr ''w1'')])]),
         Cancelled ''w1'' (Response \<lparr>ok = True, status = 200, body = None\<rparr>)]
        (fresh orch_initial)
      = Inr (fresh (orch_initial\<lparr>workloads :=
          [(JStr ''w1'', JObj [(''id'', JStr ''w1''), (''status'', JStr ''cancelled'')])]\<rparr>))"
proof -
  let ?xs = "[Frame (JObj [(''type'', JStr ''peer_joined''), (''peer_id'', JStr ''a'')]),
       Frame (JObj [(''type'', JStr ''peer_joined''), (''peer_id'', JStr '''')]),
       Frame (JObj [(''type'', JStr ''peer_joined''), (''peer_id'', JStr ''a'')])]"
  let ?ys = "[Event (JObj [(''type'', JStr ''workload_created''),
                      (''data'', JObj [(''id'', JStr ''w1'')])]),
         Cancelled ''w1'' (Response \<lparr>ok = True, status = 200, body = None\<rparr>)]"
  let ?s' = "p2p_initial\<lparr>peers :=
          [(JStr ''a'', \<lparr>id' = JStr ''a'', name = JStr ''Peer-a'', reputation = JNum 0.5,
                          location = JUndefined, addresses = JArr []\<rparr>)]\<rparr>"
  let ?w' = "fresh (orch_initial\<lparr>workloads :=
          [(JStr ''w1'', JObj [(''id'', JStr ''w1''), (''status'', JStr ''cancelled'')])]\<rparr>)"
  have a: "peers_ok (peers p2p_initial)"
    by (simp add: peers_ok_def one_per_id_def p2p_initial_def)
  have b: "stores_ok (state (fresh orch_initial))"
    by (simp add: stores_ok_def one_per_id_def orch_initial_def fresh_def)
  have c: "p2p_ops (\<lambda>v. []) ?xs p2p_initial = Inr ?s'"
    by (simp add: p2p_onmessage_def p2p_handleMessage_def normalizePeer_def js_or_def
          js_coalesce_def spread_with_def map_set_def p2p_initial_def Let_def)
  have d: "orch_ops ?ys (fresh orch_initial) = Inr ?w'"
    by (simp add: orch_onmessage_def forwarded_def orch_handleMessage_def cancelWorkload_def
          command_response_def update_workload_def map_get_def map_set_def spread_with_def
          sendWorkloadCommand_def readyState_def fresh_def orch_initial_def)
  from a b c d have "peers_ok (peers ?s') \<and> stores_ok (state ?w')"
    using stores_keep_one_entry_per_id
      [of p2p_initial "\<lambda>v. []" ?xs ?s' "fresh orch_initial" ?ys ?w']
    by blast
  with c d show ?thesis
    by (simp add: p2p_initial_def)
qed

text \<open>
  The claim as it stands fails on the workloads store: a \<^verbatim>\<open>workload_created\<close> frame
  whose entity has the empty string as \<^verbatim>\<open>id\<close> is stored, under the empty identifier.
\<close>

theorem empty_identifier_stored_counterexample:
  "orch_handleMessage (JObj [(''type'', JStr ''workload_created''),
                             (''data'', JObj [(''id'', JStr '''')])]) orch_initial
     = Done (orch_initial\<lparr>workloads := [(JStr '''', JObj [(''id'', JStr '''')])]\<rparr>)
   \<and> \<not> truthy (JStr '''')"
  by (simp add: orch_handleMessage_def orch_initial_def map_set_def)

subsection \<open>Reputation\<close>

text \<open>
  Claim C9, as the code has it. Normalisation copies the reputation and never clamps
  it. A numeric \<^verbatim>\<open>reputation\<close> is taken as it is; otherwise \<^verbatim>\<open>reputation.score\<close> is
  taken as it is when it is neither \<^verbatim>\<open>null\<close> nor \<^verbatim>\<open>undefined\<close>, and 0.5 when it is. So
  the reputation of the normalised peer lies between 0 and 1 exactly when the payload's
  number does, or when the payload has none.
\<close>

theorem reputation_copied:
  assumes "normalizePeer toStr p = Inr n"
  shows "(\<forall>r. jprop p ''reputation'' = JNum r \<longrightarrow> reputation n = JNum r)
       \<and> ((\<forall>r. jprop p ''reputation'' \<noteq> JNum r)
            \<and> \<not> nullish (jprop (jprop p ''reputation'') ''score'')
            \<longrightarrow> reputation n = jprop (jprop p ''reputation'') ''score'')
       \<and> ((\<forall>r. jprop p ''reputation'' \<noteq> JNum r)
            \<and> nullish (jprop (jprop p ''reputation'') ''score'')
            \<longrightarrow> reputation n = JNum 0.5)
       \<and> (unit_interval (reputation n) \<longleftrightarrow>
            (case jprop p ''reputation'' of
               JNum r \<Rightarrow> 0 \<le> r \<and> r \<le> 1
             | v \<Rightarrow> nullish (jprop v ''score'') \<or> unit_interval (jprop v ''score'')))"
proof -
  from assms have r: "reputation n =
      (case jprop p ''reputation'' of
         JNum r \<Rightarrow> JNum r
       | v \<Rightarrow> js_coalesce (jprop v ''score'') (JNum 0.5))"
    by (auto simp: normalizePeer_def Let_def split: if_splits sum.splits)
  show ?thesis
    unfolding r
    by (cases "jprop p ''reputation''") (simp_all add: js_coalesce_def unit_interval_def)
qed

theorem reputation_copied_witness:
  "reputation \<lparr>id' = JStr ''abc'', name = JStr ''Alice'', reputation = JNum 0.5,
               location = JUndefined, addresses = JArr []\<rparr> = JNum 0.5
   \<and> unit_interval (JNum 0.5)"
  using reputation_copied
    [of "\<lambda>v. []" "JObj [(''peer_id'', JStr ''abc''), (''display_name'', JStr ''Alice'')]"
        "\<lparr>id' = JStr ''abc'', name = JStr ''Alice'', reputation = JNum 0.5,
          location = JUndefined, addresses = JArr []\<rparr>"]
  by (simp add: normalizePeer_def js_or_def js_coalesce_def)

text \<open>
  The claim as it stands fails: a payload with the number 7 as reputation is
  normalised to a peer with reputation 7, and a \<^verbatim>\<open>peers_list\<close> frame puts that peer
  into the store.
\<close>

theorem reputation_out_of_range_counterexample:
  "p2p_handleMessage (\<lambda>v. [])
      (JObj [(''type'', JStr ''peers_list''),
             (''peers'', JArr [JObj [(''id'', JStr ''a''), (''reputation'', JNum 7)]])])
      p2p_initial
    = Done (p2p_initial\<lparr>peers := [(JStr ''a'', \<lparr>id' = JStr ''a'', name = JStr ''Peer-a'',
             reputation = JNum 7, location = JUndefined, addresses = JArr []\<rparr>)]\<rparr>)
   \<and> \<not> unit_interval (JNum 7)"
  by (simp add: p2p_handleMessage_def frame_peers_def normalizePeer_def js_or_def js_coalesce_def
        map_set_def unit_interval_def p2p_initial_def)

subsection \<open>Fetches that fail\<close>

text \<open>
  Claim C10, as the code has it. \<^verbatim>\<open>fetchWorkloads\<close> and \<^verbatim>\<open>fetchNodes\<close> make one request;
  on a status that is not a success, and when the request itself fails, they store the
  message, throw the error to the caller and leave the store as it was. \<^verbatim>\<open>fetchPeers\<close>
  surfaces no failure to its caller: when the request fails, when the body is not JSON
  and when the body is \<^verbatim>\<open>null\<close>, the error is caught and logged, the promise resolves
  and the state is as before.
\<close>

theorem fetch_failure_surfaced:
  "(\<not> ok resp \<longrightarrow>
      fetchWorkloads (Response resp) s =
        (s\<lparr>error := Some (Literal (''Failed to fetch workloads: ''
                                     @ string_of_nat (status resp)))\<rparr>,
         Inl (Error (''Failed to fetch workloads: '' @ string_of_nat (status resp))))
    \<and> fetchNodes (Response resp) s =
        (s\<lparr>error := Some (Literal (''Failed to fetch nodes: ''
                                     @ string_of_nat (status resp)))\<rparr>,
         Inl (Error (''Failed to fetch nodes: '' @ string_of_nat (status resp)))))
   \<and> fetchWorkloads Rejected s = (s\<lparr>error := Some (message FetchFailed)\<rparr>, Inl FetchFailed)
   \<and> fetchNodes Rejected s = (s\<lparr>error := Some (message FetchFailed)\<rparr>, Inl FetchFailed)
   \<and> fetchPeers toStr Rejected p = (Inr p, Inr ())
   \<and> (body resp = None \<or> body resp = Some JNull \<or> body resp = Some JUndefined
        \<longrightarrow> fetchPeers toStr (Response resp) p = (Inr p, Inr ()))
   \<and> snd (fetchPeers toStr r p) = Inr ()"
  by (auto simp: fetchWorkloads_def fetchNodes_def fetch_collection_def fetchPeers_def)

theorem fetch_failure_surfaced_witness:
  "fetchWorkloads (Response \<lparr>ok = False, status = 503, body = Some (JArr [])\<rparr>) orch_initial
     = (orch_initial\<lparr>error := Some (Literal ''Failed to fetch workloads: 503'')\<rparr>,
        Inl (Error ''Failed to fetch workloads: 503''))
   \<and> workloads (fst (fetchWorkloads
        (Response \<lparr>ok = False, status = 503, body = Some (JArr [])\<rparr>) orch_initial))
     = workloads orch_initial
   \<and> fetchPeers (\<lambda>v. []) (Response \<lparr>ok = False, status = 503, body = None\<rparr>) p2p_initial
     = (Inr p2p_initial, Inr ())"
proof -
  have "fetchWorkloads (Response \<lparr>ok = False, status = 503, body = Some (JArr [])\<rparr>)
          orch_initial
     = (orch_initial\<lparr>error := Some (Literal ''Failed to fetch workloads: 503'')\<rparr>,
        Inl (Error ''Failed to fetch workloads: 503''))"
    using fetch_failure_surfaced
      [of "\<lparr>ok = False, status = 503, body = Some (JArr [])\<rparr>" orch_initial]
    by (simp add: string_of_nat.simps)
  moreover have "fetchPeers (\<lambda>v. []) (Response \<lparr>ok = False, status = 503, body = None\<rparr>)
      p2p_initial = (Inr p2p_initial, Inr ())"
    using fetch_failure_surfaced
      [of "\<lparr>ok = False, status = 503, body = None\<rparr>" _ "\<lambda>v. []" p2p_initial]
    by simp
  ultimately show ?thesis by simp
qed

text \<open>
  The claim as it stands fails on \<^verbatim>\<open>fetchPeers\<close>: a response with status 500 whose body
  is an array of peers is taken as the snapshot, and the caller sees no failure.
\<close>

theorem fetchPeers_ignores_status_counterexample:
  "fetchPeers (\<lambda>v. []) (Response \<lparr>ok = False, status = 500,
       body = Some (JArr [JObj [(''peer_id'', JStr ''abc''), (''display_name'', JStr ''Alice'')]])\<rparr>)
     p2p_initial
   = (Inr (p2p_initial\<lparr>peers := [(JStr ''abc'', \<lparr>id' = JStr ''abc'', name = JStr ''Alice'',
         reputation = JNum 0.5, location = JUndefined, addresses = JArr []\<rparr>)]\<rparr>), Inr ())"
  by (simp add: fetchPeers_def normalizePeer_def js_or_def js_coalesce_def map_set_def
        p2p_initial_def)

end
